theory Spec2Isabelle
  imports Main "HOL-Library.Word" "HOL-Library.Sublist"
begin

unbundle bit_operations_syntax

section \<open>Python values\<close>

text \<open>
  The webhook module \<^verbatim>\<open>backend/src/webhooks/notion.py\<close> works on Python \<^verbatim>\<open>bytes\<close>,
  \<^verbatim>\<open>str\<close> and parsed JSON. A \<^verbatim>\<open>bytes\<close> object is a list of 8-bit words. A \<^verbatim>\<open>str\<close> is a
  list of Unicode code points (a Python \<^verbatim>\<open>str\<close> only holds code points below
  \<open>0x110000\<close>, lone surrogates included). The exceptions are those the library calls
  of the module raise on its inputs.
\<close>

type_synonym byte = "8 word"
type_synonym bytes = "byte list"
type_synonym u32 = "32 word"
type_synonym pystr = "nat list"

datatype exn = TypeError | UnicodeEncodeError | RecursionError | ValueError

definition lit :: "string \<Rightarrow> pystr" where
  "lit s = map of_char s"

definition isascii :: "pystr \<Rightarrow> bool" where
  "isascii s = list_all (\<lambda>c. c < 128) s"

text \<open>\<^verbatim>\<open>str.encode('utf-8')\<close>: one to four bytes per code point; a surrogate raises.\<close>

definition utf8_char :: "nat \<Rightarrow> exn + bytes" where
  "utf8_char c =
     (if c < 0x80 then Inr [of_nat c]
      else if c < 0x800 then Inr [of_nat (0xC0 + c div 64), of_nat (0x80 + c mod 64)]
      else if 0xD800 \<le> c \<and> c < 0xE000 then Inl UnicodeEncodeError
      else if c < 0x10000 then
        Inr [of_nat (0xE0 + c div 4096), of_nat (0x80 + c div 64 mod 64), of_nat (0x80 + c mod 64)]
      else
        Inr [of_nat (0xF0 + c div 262144), of_nat (0x80 + c div 4096 mod 64),
             of_nat (0x80 + c div 64 mod 64), of_nat (0x80 + c mod 64)])"

fun encode_utf8 :: "pystr \<Rightarrow> exn + bytes" where
  "encode_utf8 [] = Inr []"
| "encode_utf8 (c # cs) =
     (case utf8_char c of
        Inl e \<Rightarrow> Inl e
      | Inr bs \<Rightarrow> (case encode_utf8 cs of Inl e \<Rightarrow> Inl e | Inr r \<Rightarrow> Inr (bs @ r)))"

section \<open>The library calls of \<^verbatim>\<open>validate_signature\<close>\<close>

text \<open>
  \<^verbatim>\<open>hashlib.sha256\<close> after FIPS 180-4, on 32-bit words: the message is padded to a
  multiple of 64 bytes and each block is compressed into a state of eight words.
\<close>

text \<open>
  The round constants and the initial state of FIPS 180-4, sections 4.2.2 and 5.3.3,
  written in decimal. The test vectors proved below depend on every one of them.
\<close>

definition sha256_K :: "u32 list" where
  "sha256_K =
     [1116352408, 1899447441, 3049323471, 3921009573, 961987163, 1508970993,
      2453635748, 2870763221, 3624381080, 310598401, 607225278, 1426881987,
      1925078388, 2162078206, 2614888103, 3248222580, 3835390401, 4022224774,
      264347078, 604807628, 770255983, 1249150122, 1555081692, 1996064986,
      2554220882, 2821834349, 2952996808, 3210313671, 3336571891, 3584528711,
      113926993, 338241895, 666307205, 773529912, 1294757372, 1396182291,
      1695183700, 1986661051, 2177026350, 2456956037, 2730485921, 2820302411,
      3259730800, 3345764771, 3516065817, 3600352804, 4094571909, 275423344,
      430227734, 506948616, 659060556, 883997877, 958139571, 1322822218,
      1537002063, 1747873779, 1955562222, 2024104815, 2227730452, 2361852424,
      2428436474, 2756734187, 3204031479, 3329325298]"

type_synonym sha_state = "u32 \<times> u32 \<times> u32 \<times> u32 \<times> u32 \<times> u32 \<times> u32 \<times> u32"

definition sha256_H0 :: sha_state where
  "sha256_H0 =
     (1779033703, 3144134277, 1013904242, 2773480762,
      1359893119, 2600822924, 528734635, 1541459225)"

definition Ch :: "u32 \<Rightarrow> u32 \<Rightarrow> u32 \<Rightarrow> u32" where
  "Ch x y z = (x AND y) XOR (NOT x AND z)"

definition Maj :: "u32 \<Rightarrow> u32 \<Rightarrow> u32 \<Rightarrow> u32" where
  "Maj x y z = (x AND y) XOR (x AND z) XOR (y AND z)"

definition bsig0 :: "u32 \<Rightarrow> u32" where
  "bsig0 x = word_rotr 2 x XOR word_rotr 13 x XOR word_rotr 22 x"

definition bsig1 :: "u32 \<Rightarrow> u32" where
  "bsig1 x = word_rotr 6 x XOR word_rotr 11 x XOR word_rotr 25 x"

definition ssig0 :: "u32 \<Rightarrow> u32" where
  "ssig0 x = word_rotr 7 x XOR word_rotr 18 x XOR drop_bit 3 x"

definition ssig1 :: "u32 \<Rightarrow> u32" where
  "ssig1 x = word_rotr 17 x XOR word_rotr 19 x XOR drop_bit 10 x"

definition be32 :: "u32 \<Rightarrow> bytes" where
  "be32 w = [ucast (drop_bit 24 w), ucast (drop_bit 16 w), ucast (drop_bit 8 w), ucast w]"

definition be64 :: "64 word \<Rightarrow> bytes" where
  "be64 w = [ucast (drop_bit 56 w), ucast (drop_bit 48 w), ucast (drop_bit 40 w), ucast (drop_bit 32 w),
             ucast (drop_bit 24 w), ucast (drop_bit 16 w), ucast (drop_bit 8 w), ucast w]"

fun words_of :: "bytes \<Rightarrow> u32 list" where
  "words_of (b0 # b1 # b2 # b3 # bs) =
     (push_bit 24 (ucast b0) OR push_bit 16 (ucast b1) OR push_bit 8 (ucast b2) OR ucast b3)
       # words_of bs"
| "words_of _ = []"

fun schedule :: "nat \<Rightarrow> u32 list \<Rightarrow> u32 list" where
  "schedule 0 w = w"
| "schedule (Suc n) w =
     (let t = length w
      in schedule n (w @ [ssig1 (w ! (t - 2)) + w ! (t - 7) + ssig0 (w ! (t - 15)) + w ! (t - 16)]))"

fun sha_round :: "sha_state \<Rightarrow> u32 \<times> u32 \<Rightarrow> sha_state" where
  "sha_round (a, b, c, d, e, f, g, h) (k, w) =
     (let t1 = h + bsig1 e + Ch e f g + k + w;
          t2 = bsig0 a + Maj a b c
      in (t1 + t2, a, b, c, d + t1, e, f, g))"

fun add_state :: "sha_state \<Rightarrow> sha_state \<Rightarrow> sha_state" where
  "add_state (a, b, c, d, e, f, g, h) (a', b', c', d', e', f', g', h') =
     (a + a', b + b', c + c', d + d', e + e', f + f', g + g', h + h')"

definition compress :: "sha_state \<Rightarrow> bytes \<Rightarrow> sha_state" where
  "compress H block = add_state H (foldl sha_round H (zip sha256_K (schedule 48 (words_of block))))"

fun process_blocks :: "sha_state \<Rightarrow> bytes \<Rightarrow> sha_state" where
  "process_blocks H m =
     (if length m < 64 then H else process_blocks (compress H (take 64 m)) (drop 64 m))"

declare process_blocks.simps [simp del]

definition sha_pad :: "bytes \<Rightarrow> bytes" where
  "sha_pad m =
     m @ [0x80] @ replicate ((119 - length m mod 64) mod 64) 0
       @ be64 (of_nat (length m) * 8)"

fun state_bytes :: "sha_state \<Rightarrow> bytes" where
  "state_bytes (a, b, c, d, e, f, g, h) =
     be32 a @ be32 b @ be32 c @ be32 d @ be32 e @ be32 f @ be32 g @ be32 h"

definition sha256 :: "bytes \<Rightarrow> bytes" where
  "sha256 m = state_bytes (process_blocks sha256_H0 (sha_pad m))"

text \<open>
  \<^verbatim>\<open>hmac.new(key, msg, hashlib.sha256).digest()\<close> (RFC 2104 with the 64-byte block of
  SHA-256): a key longer than the block is hashed first, a shorter one is filled with
  zero bytes up to the block.
\<close>

definition hmac_sha256 :: "bytes \<Rightarrow> bytes \<Rightarrow> bytes" where
  "hmac_sha256 key msg =
     (let k0 = (if length key > 64 then sha256 key else key);
          k = k0 @ replicate (64 - length k0) 0
      in sha256 (map (\<lambda>b. b XOR 0x5C) k @ sha256 (map (\<lambda>b. b XOR 0x36) k @ msg)))"

text \<open>\<^verbatim>\<open>.hexdigest()\<close>: two lower-case hexadecimal digits per byte.\<close>

definition hexchar :: "nat \<Rightarrow> nat" where
  "hexchar n = (if n < 10 then 48 + n else 87 + n)"

definition hexdigest :: "bytes \<Rightarrow> pystr" where
  "hexdigest bs = concat (map (\<lambda>b. [hexchar (unat b div 16), hexchar (unat b mod 16)]) bs)"

text \<open>
  \<^verbatim>\<open>hmac.compare_digest(a, b)\<close> on two \<^verbatim>\<open>str\<close> arguments: CPython raises
  \<^verbatim>\<open>TypeError\<close> unless both are ASCII and otherwise reports whether they are equal.
\<close>

definition compare_digest :: "pystr \<Rightarrow> pystr \<Rightarrow> exn + bool" where
  "compare_digest a b = (if \<not> (isascii a \<and> isascii b) then Inl TypeError else Inr (a = b))"

section \<open>\<^verbatim>\<open>validate_signature\<close>\<close>

text \<open>
  Lines 12 to 34. Python's \<^verbatim>\<open>not x\<close> on \<^verbatim>\<open>bytes\<close> and \<^verbatim>\<open>str\<close> holds exactly for the
  empty value. \<open>Inl\<close> is an exception leaving the function.
\<close>

definition validate_signature :: "bytes \<Rightarrow> pystr \<Rightarrow> pystr \<Rightarrow> exn + bool" where
  "validate_signature payload signature secret =
     (if payload = [] \<or> signature = [] \<or> secret = [] then Inr False
      else case encode_utf8 secret of
             Inl e \<Rightarrow> Inl e
           | Inr key \<Rightarrow>
               (let computed_signature = hexdigest (hmac_sha256 key payload)
                in compare_digest computed_signature signature))"

section \<open>Parsed JSON and \<^verbatim>\<open>json.dumps\<close>\<close>

text \<open>
  The payload is what \<^verbatim>\<open>json.loads\<close> returns: \<^verbatim>\<open>None\<close>, \<^verbatim>\<open>bool\<close>, \<^verbatim>\<open>int\<close>,
  \<^verbatim>\<open>float\<close>, \<^verbatim>\<open>str\<close>, \<^verbatim>\<open>list\<close> and \<^verbatim>\<open>dict\<close> with \<^verbatim>\<open>str\<close> keys. A dict is an
  association list in insertion order (a Python dict has each key once). Floating-point
  arithmetic is not modelled: a finite float is the non-empty ASCII text that
  \<^verbatim>\<open>float.__repr__\<close> gives for it.
\<close>

typedef float_repr = "{s :: pystr. s \<noteq> [] \<and> isascii s}"
  by (rule exI [of _ "[48]"]) (simp add: isascii_def)

setup_lifting type_definition_float_repr

instantiation float_repr :: equal
begin

lift_definition equal_float_repr :: "float_repr \<Rightarrow> float_repr \<Rightarrow> bool" is "(=)" .

instance
  by standard (transfer, simp)

end

datatype pyfloat = Finite float_repr | NaN | PosInf | NegInf

datatype pyval =
    PyNone
  | PyBool bool
  | PyInt int
  | PyFloat pyfloat
  | PyStr pystr
  | PyList "pyval list"
  | PyDict "(pystr \<times> pyval) list"

type_synonym pydict = "(pystr \<times> pyval) list"

text \<open>\<^verbatim>\<open>d.get(k)\<close>: the value, or \<^verbatim>\<open>None\<close> for a missing key.\<close>

definition dict_get :: "pydict \<Rightarrow> pystr \<Rightarrow> pyval" where
  "dict_get d k = (case map_of d k of None \<Rightarrow> PyNone | Some v \<Rightarrow> v)"

text \<open>
  What the interpreter fixes for a call of the module:
  \<^item> \<open>str_repr\<close>, the \<^verbatim>\<open>repr\<close> of a \<^verbatim>\<open>str\<close>, which depends on its Unicode tables;
  \<^item> \<open>max_str_digits\<close>, the value of \<^verbatim>\<open>sys.get_int_max_str_digits()\<close>: an \<^verbatim>\<open>int\<close> with
    more decimal digits raises \<^verbatim>\<open>ValueError\<close> when it is written out (4300 by default,
    0 for no limit);
  \<^item> \<open>depth_left\<close>, the room the recursion limit leaves: the number of container levels
    that \<^verbatim>\<open>json.dumps\<close>, called from \<^verbatim>\<open>StructuredLogger._format_log\<close>, can still enter
    below the dict of keyword arguments. On line 60 of \<^verbatim>\<open>notion.py\<close> the same call
    stands two Python frames higher (\<^verbatim>\<open>info\<close> and \<^verbatim>\<open>_format_log\<close> are not on the stack)
    and can enter two levels more.

  The recursion limit is modelled where the depth of the recursion is that of the
  input, in \<^verbatim>\<open>json.dumps\<close> and \<^verbatim>\<open>repr\<close>. Calls of a fixed depth are taken to fit the
  stack.
\<close>

record runtime =
  str_repr :: "pystr \<Rightarrow> pystr"
  max_str_digits :: nat
  depth_left :: nat

fun nat_digits :: "nat \<Rightarrow> pystr" where
  "nat_digits n = (if n < 10 then [48 + n] else nat_digits (n div 10) @ [48 + n mod 10])"

declare nat_digits.simps [simp del]

text \<open>\<^verbatim>\<open>int.__repr__\<close>, with the limit on the number of digits.\<close>

definition int_str :: "nat \<Rightarrow> int \<Rightarrow> exn + pystr" where
  "int_str max_digits i =
     (let digits = nat_digits (nat \<bar>i\<bar>)
      in if 0 < max_digits \<and> max_digits < length digits then Inl ValueError
         else Inr (if i < 0 then 45 # digits else digits))"

definition float_json :: "pyfloat \<Rightarrow> pystr" where
  "float_json f =
     (case f of Finite r \<Rightarrow> Rep_float_repr r | NaN \<Rightarrow> lit ''NaN''
      | PosInf \<Rightarrow> lit ''Infinity'' | NegInf \<Rightarrow> lit ''-Infinity'')"

definition float_str :: "pyfloat \<Rightarrow> pystr" where
  "float_str f =
     (case f of Finite r \<Rightarrow> Rep_float_repr r | NaN \<Rightarrow> lit ''nan''
      | PosInf \<Rightarrow> lit ''inf'' | NegInf \<Rightarrow> lit ''-inf'')"

fun join_str :: "pystr \<Rightarrow> pystr list \<Rightarrow> pystr" where
  "join_str sep [] = []"
| "join_str sep [x] = x"
| "join_str sep (x # y # ys) = x @ sep @ join_str sep (y # ys)"

definition hex4 :: "nat \<Rightarrow> pystr" where
  "hex4 n = [hexchar (n div 4096 mod 16), hexchar (n div 256 mod 16),
             hexchar (n div 16 mod 16), hexchar (n mod 16)]"

text \<open>
  \<^verbatim>\<open>json.encoder.py_encode_basestring_ascii\<close> (\<^verbatim>\<open>ensure_ascii=True\<close> is the default):
  backslash, double quote and everything outside \<open>0x20..0x7E\<close> are escaped, a code
  point above \<open>0xFFFF\<close> as a surrogate pair.
\<close>

definition escape_ascii :: "nat \<Rightarrow> pystr" where
  "escape_ascii c =
     (if c = 92 then [92, 92]
      else if c = 34 then [92, 34]
      else if c = 8 then [92, 98]
      else if c = 12 then [92, 102]
      else if c = 10 then [92, 110]
      else if c = 13 then [92, 114]
      else if c = 9 then [92, 116]
      else if 32 \<le> c \<and> c \<le> 126 then [c]
      else if c < 0x10000 then [92, 117] @ hex4 c
      else (let n = c - 0x10000
            in [92, 117] @ hex4 (0xD800 + n div 1024 mod 1024)
               @ [92, 117] @ hex4 (0xDC00 + n mod 1024)))"

definition encode_basestring_ascii :: "pystr \<Rightarrow> pystr" where
  "encode_basestring_ascii s = [34] @ concat (map escape_ascii s) @ [34]"

text \<open>The items of a container are written out in order; the first exception ends it.\<close>

fun collect :: "(exn + 'a) list \<Rightarrow> exn + 'a list" where
  "collect [] = Inr []"
| "collect (x # xs) =
     (case x of
        Inl e \<Rightarrow> Inl e
      | Inr y \<Rightarrow> (case collect xs of Inl e \<Rightarrow> Inl e | Inr ys \<Rightarrow> Inr (y # ys)))"

text \<open>
  \<^verbatim>\<open>json.dumps(v)\<close> with the default separators \<^verbatim>\<open>', '\<close> and \<^verbatim>\<open>': '\<close>, under the digit
  limit \<open>m\<close> and with \<open>d\<close> container levels left to enter: the encoder raises
  \<^verbatim>\<open>RecursionError\<close> when it meets a list or dict with no level left.
\<close>

primrec json_dumps :: "pyval \<Rightarrow> nat \<Rightarrow> nat \<Rightarrow> exn + pystr" where
  "json_dumps PyNone m d = Inr (lit ''null'')"
| "json_dumps (PyBool b) m d = Inr (if b then lit ''true'' else lit ''false'')"
| "json_dumps (PyInt i) m d = int_str m i"
| "json_dumps (PyFloat f) m d = Inr (float_json f)"
| "json_dumps (PyStr s) m d = Inr (encode_basestring_ascii s)"
| "json_dumps (PyList xs) m d =
     (if d = 0 then Inl RecursionError
      else case collect (map (\<lambda>x. json_dumps x m (d - 1)) xs) of
             Inl e \<Rightarrow> Inl e
           | Inr rs \<Rightarrow> Inr (lit ''['' @ join_str (lit '', '') rs @ lit '']''))"
| "json_dumps (PyDict kvs) m d =
     (if d = 0 then Inl RecursionError
      else case collect
                  (map (\<lambda>(k, r). case r of
                                    Inl e \<Rightarrow> Inl e
                                  | Inr s \<Rightarrow> Inr (encode_basestring_ascii k @ lit '': '' @ s))
                       (map (map_prod id (\<lambda>v. json_dumps v m (d - 1))) kvs)) of
             Inl e \<Rightarrow> Inl e
           | Inr rs \<Rightarrow> Inr (lit ''{'' @ join_str (lit '', '') rs @ lit ''}''))"

text \<open>
  \<^verbatim>\<open>repr(v)\<close>, with the \<^verbatim>\<open>repr\<close> of a \<^verbatim>\<open>str\<close> as the parameter \<open>sr\<close>, the digit limit
  \<open>m\<close> and \<open>d\<close> container levels left.
\<close>

primrec py_repr :: "pyval \<Rightarrow> (pystr \<Rightarrow> pystr) \<Rightarrow> nat \<Rightarrow> nat \<Rightarrow> exn + pystr" where
  "py_repr PyNone sr m d = Inr (lit ''None'')"
| "py_repr (PyBool b) sr m d = Inr (if b then lit ''True'' else lit ''False'')"
| "py_repr (PyInt i) sr m d = int_str m i"
| "py_repr (PyFloat f) sr m d = Inr (float_str f)"
| "py_repr (PyStr s) sr m d = Inr (sr s)"
| "py_repr (PyList xs) sr m d =
     (if d = 0 then Inl RecursionError
      else case collect (map (\<lambda>x. py_repr x sr m (d - 1)) xs) of
             Inl e \<Rightarrow> Inl e
           | Inr rs \<Rightarrow> Inr (lit ''['' @ join_str (lit '', '') rs @ lit '']''))"
| "py_repr (PyDict kvs) sr m d =
     (if d = 0 then Inl RecursionError
      else case collect
                  (map (\<lambda>(k, r). case r of
                                    Inl e \<Rightarrow> Inl e
                                  | Inr s \<Rightarrow> Inr (sr k @ lit '': '' @ s))
                       (map (map_prod id (\<lambda>v. py_repr v sr m (d - 1))) kvs)) of
             Inl e \<Rightarrow> Inl e
           | Inr rs \<Rightarrow> Inr (lit ''{'' @ join_str (lit '', '') rs @ lit ''}''))"

text \<open>
  The \<^verbatim>\<open>{v}\<close> of an f-string in \<^verbatim>\<open>process_notion_webhook\<close>, that is \<^verbatim>\<open>str(v)\<close>: a \<^verbatim>\<open>str\<close>
  is itself, anything else its \<^verbatim>\<open>repr\<close>. The f-strings run in the frame of line 60 and
  are given the depth \<^verbatim>\<open>json.dumps\<close> has there; CPython lets \<^verbatim>\<open>repr\<close> descend at least
  as far, and the values formatted are parts of the payload that line 60 has written
  out, so that the bound is never met (lemma \<open>py_format_of_payload\<close>).
\<close>

definition py_format :: "runtime \<Rightarrow> pyval \<Rightarrow> exn + pystr" where
  "py_format rt v =
     (case v of
        PyStr s \<Rightarrow> Inr s
      | _ \<Rightarrow> py_repr v (str_repr rt) (max_str_digits rt) (depth_left rt + 3))"

text \<open>
  A value inside \<open>n\<close> lists, as the JSON text \<^verbatim>\<open>[[...[v]...]]\<close> with \<open>n\<close> brackets on
  each side parses.
\<close>

fun nested :: "nat \<Rightarrow> pyval \<Rightarrow> pyval" where
  "nested 0 v = v"
| "nested (Suc n) v = PyList [nested n v]"

section \<open>The process: environment and logger\<close>

text \<open>
  What a call can read or write outside its arguments: \<^verbatim>\<open>os.environ\<close> and the output
  of the module-level \<^verbatim>\<open>logger\<close> of \<^verbatim>\<open>utils/logger.py\<close>. A log record keeps the level,
  the formatted message and the exception logged with \<^verbatim>\<open>exc_info=True\<close>; the time
  stamp the formatter adds is left out.
\<close>

datatype level = INFO | ERROR

record log_record =
  levelname :: level
  msg :: pystr
  exc_info :: "exn option"

record proc_state =
  environ :: "pystr \<rightharpoonup> pystr"
  log_output :: "log_record list"

text \<open>
  \<^verbatim>\<open>StructuredLogger._format_log\<close>, \<^verbatim>\<open>info\<close> and \<^verbatim>\<open>error\<close> (lines 41 to 57). An
  exception of \<^verbatim>\<open>json.dumps(kwargs)\<close> leaves the logger before anything is written.
\<close>

definition format_log :: "runtime \<Rightarrow> pystr \<Rightarrow> pydict \<Rightarrow> exn + pystr" where
  "format_log rt message kwargs =
     (if kwargs \<noteq> [] then
        (case json_dumps (PyDict kwargs) (max_str_digits rt) (depth_left rt + 1) of
           Inl e \<Rightarrow> Inl e
         | Inr text \<Rightarrow> Inr (message @ lit '' | '' @ text))
      else Inr message)"

definition logger_info :: "runtime \<Rightarrow> pystr \<Rightarrow> pydict \<Rightarrow> proc_state \<Rightarrow> exn + proc_state" where
  "logger_info rt message kwargs st =
     (case format_log rt message kwargs of
        Inl e \<Rightarrow> Inl e
      | Inr text \<Rightarrow>
          Inr (st\<lparr>log_output := log_output st
                     @ [\<lparr>levelname = INFO, msg = text, exc_info = None\<rparr>]\<rparr>))"

definition logger_error ::
  "runtime \<Rightarrow> pystr \<Rightarrow> exn option \<Rightarrow> pydict \<Rightarrow> proc_state \<Rightarrow> exn + proc_state" where
  "logger_error rt message exc kwargs st =
     (case format_log rt message kwargs of
        Inl e \<Rightarrow> Inl e
      | Inr text \<Rightarrow>
          Inr (st\<lparr>log_output := log_output st
                     @ [\<lparr>levelname = ERROR, msg = text, exc_info = exc\<rparr>]\<rparr>))"

section \<open>\<^verbatim>\<open>process_notion_webhook\<close>\<close>

record response_data =
  facility_id :: pyval
  event_type :: pyval
  timestamp :: pyval

record response =
  status :: pystr
  message :: pystr
  data :: response_data

text \<open>Line 60: \<^verbatim>\<open>json.dumps(payload).encode('utf-8')\<close>.\<close>

definition payload_bytes :: "runtime \<Rightarrow> pydict \<Rightarrow> exn + bytes" where
  "payload_bytes rt payload =
     (case json_dumps (PyDict payload) (max_str_digits rt) (depth_left rt + 3) of
        Inl e \<Rightarrow> Inl e
      | Inr text \<Rightarrow> encode_utf8 text)"

text \<open>
  The body of the \<^verbatim>\<open>try\<close> block, lines 72 to 107: \<open>Inl e\<close> is an exception raised in
  it, with the state at that point. The message of line 99 formats \<^verbatim>\<open>event_type\<close> a
  second time, with the result of line 76.
\<close>

definition handle_event ::
  "runtime \<Rightarrow> pydict \<Rightarrow> proc_state \<Rightarrow> (exn + response) \<times> proc_state" where
  "handle_event rt payload st =
     (let event_type = dict_get payload (lit ''type'');
          facility_id = dict_get payload (lit ''facility_id'')
      in case py_format rt event_type of
           Inl e \<Rightarrow> (Inl e, st)
         | Inr event_text \<Rightarrow>
             (case logger_info rt (lit ''Received '' @ event_text @ lit '' event'')
                     [(lit ''facility_id'', facility_id)] st of
                Inl e \<Rightarrow> (Inl e, st)
              | Inr st1 \<Rightarrow>
                  (case (if event_type = PyStr (lit ''facility.updated'') then
                           logger_info rt (lit ''Processing facility update'')
                             [(lit ''facility_id'', facility_id)] st1
                         else if event_type = PyStr (lit ''facility.verified'') then
                           logger_info rt (lit ''Processing facility verification'')
                             [(lit ''facility_id'', facility_id)] st1
                         else if event_type = PyStr (lit ''facility.deleted'') then
                           logger_info rt (lit ''Processing facility deletion'')
                             [(lit ''facility_id'', facility_id)] st1
                         else Inr st1) of
                     Inl e \<Rightarrow> (Inl e, st1)
                   | Inr st2 \<Rightarrow>
                       (case py_format rt facility_id of
                          Inl e \<Rightarrow> (Inl e, st2)
                        | Inr facility_text \<Rightarrow>
                            (Inr \<lparr>status = lit ''success'',
                                   message = lit ''Processed '' @ event_text
                                             @ lit '' event for facility '' @ facility_text,
                                   data = \<lparr>facility_id = facility_id,
                                           event_type = event_type,
                                           timestamp = dict_get payload (lit ''timestamp'')\<rparr>\<rparr>,
                             st2)))))"

text \<open>
  Lines 36 to 111. The result is \<open>Inr None\<close> for \<^verbatim>\<open>return None\<close>, \<open>Inr (Some r)\<close> for
  a response and \<open>Inl e\<close> for an exception that leaves the function; the second component
  is the process state after the call. \<^verbatim>\<open>not signature\<close> holds for \<^verbatim>\<open>None\<close> and for the
  empty string. Only the body of \<^verbatim>\<open>try\<close> has a handler: an exception of any other
  line leaves the function.
\<close>

definition process_notion_webhook ::
  "runtime \<Rightarrow> pydict \<Rightarrow> (pystr \<rightharpoonup> pystr) \<Rightarrow> proc_state
     \<Rightarrow> (exn + response option) \<times> proc_state" where
  "process_notion_webhook rt payload headers st =
     (case headers (lit ''Notion-Signature'') of
        None \<Rightarrow>
          (case logger_error rt (lit ''Missing signature header'') None [] st of
             Inl e \<Rightarrow> (Inl e, st) | Inr st' \<Rightarrow> (Inr None, st'))
      | Some signature \<Rightarrow>
          if signature = [] then
            (case logger_error rt (lit ''Missing signature header'') None [] st of
               Inl e \<Rightarrow> (Inl e, st) | Inr st' \<Rightarrow> (Inr None, st'))
          else
            (case environ st (lit ''NOTION_WEBHOOK_SECRET'') of
               None \<Rightarrow>
                 (case logger_error rt (lit ''Webhook secret not configured'') None [] st of
                    Inl e \<Rightarrow> (Inl e, st) | Inr st' \<Rightarrow> (Inr None, st'))
             | Some webhook_secret \<Rightarrow>
                 if webhook_secret = [] then
                   (case logger_error rt (lit ''Webhook secret not configured'') None [] st of
                      Inl e \<Rightarrow> (Inl e, st) | Inr st' \<Rightarrow> (Inr None, st'))
                 else
                   (case payload_bytes rt payload of
                      Inl e \<Rightarrow> (Inl e, st)
                    | Inr bs \<Rightarrow>
                        (case validate_signature bs signature webhook_secret of
                           Inl e \<Rightarrow> (Inl e, st)
                         | Inr valid \<Rightarrow>
                             if \<not> valid then
                               (case logger_error rt (lit ''Invalid webhook signature'')
                                       None [] st of
                                  Inl e \<Rightarrow> (Inl e, st) | Inr st' \<Rightarrow> (Inr None, st'))
                             else
                               (case logger_info rt (lit ''Webhook signature validated'')
                                       [(lit ''source'', PyStr (lit ''notion''))] st of
                                  Inl e \<Rightarrow> (Inl e, st)
                                | Inr st1 \<Rightarrow>
                                    (case handle_event rt payload st1 of
                                       (Inr response, st2) \<Rightarrow> (Inr (Some response), st2)
                                     | (Inl e, st2) \<Rightarrow>
                                         (case logger_error rt
                                                 (lit ''Error processing webhook'')
                                                 (Some e) [] st2 of
                                            Inl e' \<Rightarrow> (Inl e', st2)
                                          | Inr st3 \<Rightarrow> (Inr None, st3))))))))"

section \<open>The signature validator\<close>

lemma lit_eq_iff: "lit s = lit t \<longleftrightarrow> s = t"
  by (simp add: lit_def inj_map_eq_map inj_def)

lemma lit_Nil: "lit [] = []"
  by (simp add: lit_def)

lemma lit_Cons: "lit (c # cs) = of_char c # lit cs"
  by (simp add: lit_def)

lemma length_be32: "length (be32 w) = 4"
  by (simp add: be32_def)

lemma length_state_bytes: "length (state_bytes s) = 32"
  by (cases s rule: state_bytes.cases) (simp add: length_be32)

lemma length_sha256: "length (sha256 m) = 32"
  by (simp add: sha256_def length_state_bytes)

lemma length_hmac_sha256: "length (hmac_sha256 key m) = 32"
  by (simp add: hmac_sha256_def Let_def length_sha256)

lemma length_hexdigest: "length (hexdigest bs) = 2 * length bs"
  by (induction bs) (simp_all add: hexdigest_def)

lemma hexchar_ascii: "n < 16 \<Longrightarrow> hexchar n < 128"
  by (simp add: hexchar_def)

lemma isascii_append: "isascii (xs @ ys) \<longleftrightarrow> isascii xs \<and> isascii ys"
  by (simp add: isascii_def)

lemma isascii_hexdigest: "isascii (hexdigest bs)"
proof (induction bs)
  case Nil
  show ?case by (simp add: hexdigest_def isascii_def)
next
  case (Cons b bs)
  have "unat b < 256" using unsigned_less [of b] by simp
  then have "unat b div 16 < 16" by simp
  moreover have "unat b mod 16 < 16" by simp
  ultimately show ?case using Cons
    by (simp add: hexdigest_def isascii_def hexchar_ascii)
qed

lemma hexdigest_hmac_nonempty: "hexdigest (hmac_sha256 key m) \<noteq> []"
proof -
  have "length (hexdigest (hmac_sha256 key m)) = 64"
    by (simp add: length_hexdigest length_hmac_sha256)
  then show ?thesis by auto
qed

lemma compare_digest_hexdigest:
  "isascii s \<Longrightarrow> compare_digest (hexdigest bs) s = Inr (hexdigest bs = s)"
  by (simp add: compare_digest_def isascii_hexdigest)

lemma validate_signature_computed:
  assumes "payload \<noteq> []" and "secret \<noteq> []" and "encode_utf8 secret = Inr key"
  shows "validate_signature payload (hexdigest (hmac_sha256 key payload)) secret = Inr True"
  using assms
  by (simp add: validate_signature_def hexdigest_hmac_nonempty compare_digest_hexdigest
      isascii_hexdigest)

text \<open>
  C1. For a non-empty payload and a non-empty secret whose UTF-8 encoding is \<open>key\<close>,
  \<^verbatim>\<open>validate_signature\<close> returns \<^verbatim>\<open>True\<close> on the hexadecimal HMAC-SHA256 of the payload
  under that key: the signature round trip succeeds.
\<close>

theorem validate_signature_roundtrip:
  assumes "payload \<noteq> []" and "secret \<noteq> []" and "encode_utf8 secret = Inr key"
  shows "validate_signature payload (hexdigest (hmac_sha256 key payload)) secret = Inr True"
  using assms by (rule validate_signature_computed)

theorem validate_signature_roundtrip_witness:
  "validate_signature [123, 125] (hexdigest (hmac_sha256 [107, 101, 121] [123, 125])) (lit ''key'')
     = Inr True"
  using validate_signature_roundtrip [of "[123, 125]" "lit ''key''" "[107, 101, 121]"]
  by (simp add: lit_Cons lit_Nil utf8_char_def)

text \<open>
  C2. Whenever the payload, the presented signature or the secret is empty,
  \<^verbatim>\<open>validate_signature\<close> returns \<^verbatim>\<open>False\<close>, whatever the other two arguments are: the
  guard comes before the encoding of the secret and before the comparison, so neither
  of their exceptions can occur.
\<close>

theorem validate_signature_fail_closed:
  assumes "payload = [] \<or> signature = [] \<or> secret = []"
  shows "validate_signature payload signature secret = Inr False"
  using assms by (auto simp: validate_signature_def)

theorem validate_signature_fail_closed_witness:
  "validate_signature [] [233] [0xD800] = Inr False
   \<and> validate_signature [1] [] [0xD800] = Inr False
   \<and> validate_signature [1] [233] [] = Inr False"
  using validate_signature_fail_closed [of "[]" "[233]" "[0xD800]"]
    validate_signature_fail_closed [of "[1]" "[]" "[0xD800]"]
    validate_signature_fail_closed [of "[1]" "[233]" "[]"]
  by simp

lemma hmac_sha256_zero_padded_key:
  assumes "length key < 64"
  shows "hmac_sha256 (key @ [0]) m = hmac_sha256 key m"
proof -
  have "64 - length key = Suc (64 - length (key @ [0]))"
    using assms by simp
  then have k: "(key @ [0]) @ replicate (64 - length (key @ [0])) 0
                = key @ replicate (64 - length key) (0::byte)"
    by simp
  have n: "\<not> 64 < length key" "\<not> 64 < length (key @ [0])"
    using assms by simp_all
  show ?thesis
    unfolding hmac_sha256_def Let_def by (simp only: n if_False k)
qed

text \<open>
  C5, as stated, fails: the secrets \<^verbatim>\<open>'a'\<close> and \<^verbatim>\<open>'a\x00'\<close> are distinct and non-empty,
  yet HMAC fills both keys with zero bytes to the same 64-byte block, so the signature
  made under the first validates under the second.
\<close>

theorem distinct_secrets_counterexample:
  "lit ''a'' \<noteq> [97, 0] \<and> encode_utf8 (lit ''a'') = Inr [97] \<and>
   validate_signature [1] (hexdigest (hmac_sha256 [97] [1])) [97, 0] = Inr True"
proof -
  have e: "encode_utf8 [97, 0] = Inr [97, 0]"
    by (simp add: utf8_char_def)
  have "hmac_sha256 ([97] @ [0]) [1] = hmac_sha256 [97] [1]"
    by (rule hmac_sha256_zero_padded_key) simp
  then have "hexdigest (hmac_sha256 [97, 0] [1]) = hexdigest (hmac_sha256 [97] [1])"
    by simp
  moreover have "validate_signature [1] (hexdigest (hmac_sha256 [97, 0] [1])) [97, 0] = Inr True"
    using e by (intro validate_signature_computed) simp_all
  ultimately show ?thesis
    by (simp add: lit_Cons lit_Nil utf8_char_def)
qed

text \<open>
  C5, amended. For a non-empty payload and non-empty secrets with UTF-8 encodings
  \<open>key1\<close> and \<open>key2\<close>, the signature made under \<open>secret1\<close> validates under \<open>secret2\<close>
  exactly when the two hexadecimal HMAC-SHA256 digests of the payload coincide; it is
  rejected whenever they differ.
\<close>

theorem validate_signature_other_secret:
  assumes "payload \<noteq> []" and "secret2 \<noteq> []"
    and "encode_utf8 secret1 = Inr key1" and "encode_utf8 secret2 = Inr key2"
  shows "validate_signature payload (hexdigest (hmac_sha256 key1 payload)) secret2
         = Inr (hexdigest (hmac_sha256 key2 payload) = hexdigest (hmac_sha256 key1 payload))"
  using assms
  by (simp add: validate_signature_def hexdigest_hmac_nonempty compare_digest_hexdigest
      isascii_hexdigest)

subsection \<open>Test vectors, evaluated on the model\<close>

lemma sha256_abc:
  "sha256 [0x61, 0x62, 0x63]
   = [0xba, 0x78, 0x16, 0xbf, 0x8f, 0x01, 0xcf, 0xea, 0x41, 0x41, 0x40, 0xde, 0x5d, 0xae, 0x22, 0x23,
      0xb0, 0x03, 0x61, 0xa3, 0x96, 0x17, 0x7a, 0x9c, 0xb4, 0x10, 0xff, 0x61, 0xf2, 0x00, 0x15, 0xad]"
  by code_simp

lemma hmac_sha256_key_a:
  "hmac_sha256 [97] [123, 125]
   = [213, 229, 44, 52, 239, 115, 235, 93, 243, 124, 71, 149, 147, 91, 89, 224, 155,
      243, 106, 1, 220, 122, 157, 163, 243, 172, 33, 36, 164, 145, 13, 145]"
  by code_simp

lemma hmac_sha256_key_b:
  "hmac_sha256 [98] [123, 125]
   = [20, 193, 161, 2, 10, 147, 40, 235, 74, 174, 29, 102, 82, 97, 141, 0, 25, 83,
      153, 227, 102, 212, 82, 248, 205, 82, 180, 103, 176, 161, 235, 172]"
  by code_simp

theorem validate_signature_other_secret_witness:
  "validate_signature [123, 125] (hexdigest (hmac_sha256 [97] [123, 125])) (lit ''b'') = Inr False"
proof -
  have "hexdigest (hmac_sha256 [98] [123, 125]) \<noteq> hexdigest (hmac_sha256 [97] [123, 125])"
    by (simp add: hmac_sha256_key_a hmac_sha256_key_b hexdigest_def hexchar_def)
  moreover have "encode_utf8 (lit ''a'') = Inr [97]" and "encode_utf8 (lit ''b'') = Inr [98]"
    and "lit ''b'' \<noteq> []"
    by (simp_all add: lit_Cons lit_Nil utf8_char_def)
  ultimately show ?thesis
    using validate_signature_other_secret [of "[123, 125]" "lit ''b''" "lit ''a''" "[97]" "[98]"]
    by simp
qed

section \<open>\<^verbatim>\<open>json.dumps\<close>: ASCII text, depth and sub-values\<close>

lemma isascii_Nil: "isascii []"
  by (simp add: isascii_def)

lemma isascii_Cons: "isascii (c # cs) \<longleftrightarrow> c < 128 \<and> isascii cs"
  by (simp add: isascii_def)

lemma isascii_concat: "(\<And>x. x \<in> set xs \<Longrightarrow> isascii x) \<Longrightarrow> isascii (concat xs)"
  by (induction xs) (simp_all add: isascii_Nil isascii_append)

lemma isascii_join_str:
  "isascii sep \<Longrightarrow> (\<And>x. x \<in> set xs \<Longrightarrow> isascii x) \<Longrightarrow> isascii (join_str sep xs)"
  by (induction sep xs rule: join_str.induct) (simp_all add: isascii_Nil isascii_append)

lemma isascii_nat_digits: "isascii (nat_digits n)"
proof (induction n rule: nat_digits.induct)
  case (1 n)
  show ?case
  proof (cases "n < 10")
    case True
    then show ?thesis by (subst nat_digits.simps) (simp add: isascii_Cons isascii_Nil)
  next
    case False
    have "n mod 10 < 10" by simp
    then have "48 + n mod 10 < 128" by linarith
    with False 1 show ?thesis
      by (subst nat_digits.simps) (simp add: isascii_append isascii_Cons isascii_Nil)
  qed
qed

lemma isascii_int_str: "int_str m i = Inr s \<Longrightarrow> isascii s"
  by (auto simp: int_str_def Let_def isascii_Cons isascii_nat_digits split: if_splits)

lemma isascii_float_json: "isascii (float_json f)"
proof (cases f)
  case (Finite r)
  then show ?thesis using Rep_float_repr [of r] by (simp add: float_json_def)
qed (simp_all add: float_json_def lit_Cons lit_Nil isascii_Cons isascii_Nil)

lemma isascii_hex4: "isascii (hex4 n)"
proof -
  have "\<And>k::nat. hexchar (k mod 16) < 128"
    by (rule hexchar_ascii) simp
  then show ?thesis
    by (simp add: hex4_def isascii_Cons isascii_Nil)
qed

lemma isascii_escape_ascii: "isascii (escape_ascii c)"
  by (simp add: escape_ascii_def Let_def isascii_Cons isascii_Nil isascii_append isascii_hex4)

lemma isascii_encode_basestring_ascii: "isascii (encode_basestring_ascii s)"
proof -
  have "isascii (concat (map escape_ascii s))"
    by (rule isascii_concat) (auto simp: isascii_escape_ascii)
  then show ?thesis
    by (simp add: encode_basestring_ascii_def isascii_Cons isascii_Nil isascii_append)
qed

lemma collect_map_Inr: "collect (map Inr ys) = Inr ys"
  by (induction ys) simp_all

lemma collect_Inr: "collect xs = Inr ys \<longleftrightarrow> xs = map Inr ys"
proof
  show "collect xs = Inr ys \<Longrightarrow> xs = map Inr ys"
    by (induction xs arbitrary: ys) (auto split: sum.splits)
  show "xs = map Inr ys \<Longrightarrow> collect xs = Inr ys"
    by (simp add: collect_map_Inr)
qed

lemma collect_map_Inr_D:
  assumes "collect (map f xs) = Inr ys" and "x \<in> set xs"
  shows "\<exists>y. f x = Inr y \<and> y \<in> set ys"
proof -
  from assms(1) have "map f xs = map Inr ys" by (simp add: collect_Inr)
  with assms(2) show ?thesis
    by (metis (no_types, lifting) image_iff list.set_map)
qed

lemma collect_map_Inr_elem:
  assumes "collect (map f xs) = Inr ys" and "y \<in> set ys"
  shows "\<exists>x \<in> set xs. f x = Inr y"
proof -
  from assms(1) have "map f xs = map Inr ys" by (simp add: collect_Inr)
  with assms(2) show ?thesis
    by (metis (no_types, lifting) image_iff list.set_map)
qed

lemma collect_map_cong_Inr:
  assumes "collect (map f xs) = Inr ys"
    and "\<And>x y. x \<in> set xs \<Longrightarrow> f x = Inr y \<Longrightarrow> g x = Inr y"
  shows "collect (map g xs) = Inr ys"
  using assms by (induction xs arbitrary: ys) (auto split: sum.splits)

lemma collect_map_total:
  assumes "\<And>x. x \<in> set xs \<Longrightarrow> \<exists>y. f x = Inr y"
  shows "\<exists>ys. collect (map f xs) = Inr ys"
  using assms
proof (induction xs)
  case Nil
  show ?case by simp
next
  case (Cons x xs)
  then obtain y ys where "f x = Inr y" and "collect (map f xs) = Inr ys"
    by (meson list.set_intros)
  then show ?case by simp
qed

lemma isascii_json_dumps: "json_dumps v m d = Inr s \<Longrightarrow> isascii s"
proof (induction v arbitrary: d s)
  case (PyList xs)
  from PyList.prems obtain rs where d: "d \<noteq> 0"
    and rs: "collect (map (\<lambda>x. json_dumps x m (d - 1)) xs) = Inr rs"
    and s: "s = lit ''['' @ join_str (lit '', '') rs @ lit '']''"
    by (auto split: if_splits sum.splits)
  have "isascii r" if "r \<in> set rs" for r
    using collect_map_Inr_elem [OF rs that] PyList.IH by blast
  then have "isascii (join_str (lit '', '') rs)"
    by (intro isascii_join_str) (auto simp: lit_Cons lit_Nil isascii_Cons isascii_Nil)
  with s show ?case
    by (simp add: isascii_append lit_Cons lit_Nil isascii_Cons isascii_Nil)
next
  case (PyDict kvs)
  let ?f = "\<lambda>kv. case json_dumps (snd kv) m (d - 1) of
                    Inl e \<Rightarrow> Inl e
                  | Inr t \<Rightarrow> Inr (encode_basestring_ascii (fst kv) @ lit '': '' @ t)"
  have f: "map (\<lambda>(k, r). case r of Inl e \<Rightarrow> Inl e
                          | Inr s \<Rightarrow> Inr (encode_basestring_ascii k @ lit '': '' @ s))
             (map (map_prod id (\<lambda>v. json_dumps v m (d - 1))) kvs) = map ?f kvs"
    by (auto simp: case_prod_unfold split: sum.splits)
  from PyDict.prems obtain rs where d: "d \<noteq> 0"
    and rs: "collect (map ?f kvs) = Inr rs"
    and s: "s = lit ''{'' @ join_str (lit '', '') rs @ lit ''}''"
    unfolding json_dumps.simps f by (auto split: if_splits sum.splits)
  have "isascii r" if "r \<in> set rs" for r
  proof -
    from collect_map_Inr_elem [OF rs that] obtain kv where kv: "kv \<in> set kvs" and r: "?f kv = Inr r"
      by blast
    from r obtain t where t: "json_dumps (snd kv) m (d - 1) = Inr t"
      and r': "r = encode_basestring_ascii (fst kv) @ lit '': '' @ t"
      by (auto split: sum.splits)
    from kv have "snd kv \<in> Basic_BNFs.snds kv" "kv \<in> set kvs"
      by (auto simp: snds.simps)
    then have "isascii t"
      using PyDict.IH t by blast
    with r' show ?thesis
      by (simp add: isascii_append isascii_encode_basestring_ascii lit_Cons lit_Nil
          isascii_Cons isascii_Nil)
  qed
  then have "isascii (join_str (lit '', '') rs)"
    by (intro isascii_join_str) (auto simp: lit_Cons lit_Nil isascii_Cons isascii_Nil)
  with s show ?case
    by (simp add: isascii_append lit_Cons lit_Nil isascii_Cons isascii_Nil)
qed (auto simp: lit_Cons lit_Nil isascii_Cons isascii_Nil isascii_int_str isascii_float_json
      isascii_encode_basestring_ascii split: if_splits)

lemma encode_utf8_ascii: "isascii s \<Longrightarrow> encode_utf8 s = Inr (map of_nat s)"
  by (induction s) (simp_all add: isascii_Cons utf8_char_def)

lemma json_dumps_mono:
  "json_dumps v m d = Inr s \<Longrightarrow> d \<le> d' \<Longrightarrow> json_dumps v m d' = Inr s"
proof (induction v arbitrary: d d' s)
  case (PyList xs)
  from PyList.prems obtain rs where d: "d \<noteq> 0"
    and rs: "collect (map (\<lambda>x. json_dumps x m (d - 1)) xs) = Inr rs"
    and s: "s = lit ''['' @ join_str (lit '', '') rs @ lit '']''"
    by (auto split: if_splits sum.splits)
  have "collect (map (\<lambda>x. json_dumps x m (d' - 1)) xs) = Inr rs"
    using rs
  proof (rule collect_map_cong_Inr)
    fix x y assume "x \<in> set xs" and "json_dumps x m (d - 1) = Inr y"
    then show "json_dumps x m (d' - 1) = Inr y"
      using PyList.IH [of x "d - 1" y "d' - 1"] PyList.prems(2) by simp
  qed
  with d s PyList.prems(2) show ?case by simp
next
  case (PyDict kvs)
  let ?f = "\<lambda>n kv. case json_dumps (snd kv) m n of
                      Inl e \<Rightarrow> Inl e
                    | Inr t \<Rightarrow> Inr (encode_basestring_ascii (fst kv) @ lit '': '' @ t)"
  have f: "map (\<lambda>(k, r). case r of Inl e \<Rightarrow> Inl e
                          | Inr s \<Rightarrow> Inr (encode_basestring_ascii k @ lit '': '' @ s))
             (map (map_prod id (\<lambda>v. json_dumps v m n)) kvs) = map (?f n) kvs" for n
    by (auto simp: case_prod_unfold split: sum.splits)
  from PyDict.prems obtain rs where d: "d \<noteq> 0"
    and rs: "collect (map (?f (d - 1)) kvs) = Inr rs"
    and s: "s = lit ''{'' @ join_str (lit '', '') rs @ lit ''}''"
    unfolding json_dumps.simps f by (auto split: if_splits sum.splits)
  have "collect (map (?f (d' - 1)) kvs) = Inr rs"
    using rs
  proof (rule collect_map_cong_Inr)
    fix kv y assume kv: "kv \<in> set kvs" and y: "?f (d - 1) kv = Inr y"
    from y obtain t where t: "json_dumps (snd kv) m (d - 1) = Inr t"
      and y': "y = encode_basestring_ascii (fst kv) @ lit '': '' @ t"
      by (auto split: sum.splits)
    from kv have "snd kv \<in> Basic_BNFs.snds kv"
      by (auto simp: snds.simps)
    with kv t have "json_dumps (snd kv) m (d' - 1) = Inr t"
      using PyDict.IH [of kv "snd kv" "d - 1" t "d' - 1"] PyDict.prems(2) by simp
    with y' show "?f (d' - 1) kv = Inr y" by simp
  qed
  with d s PyDict.prems(2) show ?case
    unfolding json_dumps.simps f by simp
qed simp_all

lemma json_dumps_py_repr:
  "json_dumps v m d = Inr s \<Longrightarrow> \<exists>t. py_repr v sr m d = Inr t"
proof (induction v arbitrary: d s)
  case (PyList xs)
  from PyList.prems obtain rs where d: "d \<noteq> 0"
    and rs: "collect (map (\<lambda>x. json_dumps x m (d - 1)) xs) = Inr rs"
    by (auto split: if_splits sum.splits)
  have "\<exists>ts. collect (map (\<lambda>x. py_repr x sr m (d - 1)) xs) = Inr ts"
  proof (rule collect_map_total)
    fix x assume x: "x \<in> set xs"
    from collect_map_Inr_D [OF rs x] obtain y where "json_dumps x m (d - 1) = Inr y"
      by blast
    with x show "\<exists>y. py_repr x sr m (d - 1) = Inr y"
      using PyList.IH by blast
  qed
  with d show ?case by auto
next
  case (PyDict kvs)
  let ?f = "\<lambda>kv. case json_dumps (snd kv) m (d - 1) of
                    Inl e \<Rightarrow> Inl e
                  | Inr t \<Rightarrow> Inr (encode_basestring_ascii (fst kv) @ lit '': '' @ t)"
  let ?g = "\<lambda>kv. case py_repr (snd kv) sr m (d - 1) of
                    Inl e \<Rightarrow> Inl e
                  | Inr t \<Rightarrow> Inr (sr (fst kv) @ lit '': '' @ t)"
  have f: "map (\<lambda>(k, r). case r of Inl e \<Rightarrow> Inl e
                          | Inr s \<Rightarrow> Inr (encode_basestring_ascii k @ lit '': '' @ s))
             (map (map_prod id (\<lambda>v. json_dumps v m (d - 1))) kvs) = map ?f kvs"
    by (auto simp: case_prod_unfold split: sum.splits)
  have g: "map (\<lambda>(k, r). case r of Inl e \<Rightarrow> Inl e | Inr s \<Rightarrow> Inr (sr k @ lit '': '' @ s))
             (map (map_prod id (\<lambda>v. py_repr v sr m (d - 1))) kvs) = map ?g kvs"
    by (auto simp: case_prod_unfold split: sum.splits)
  from PyDict.prems obtain rs where d: "d \<noteq> 0"
    and rs: "collect (map ?f kvs) = Inr rs"
    unfolding json_dumps.simps f by (auto split: if_splits sum.splits)
  have "\<exists>ts. collect (map ?g kvs) = Inr ts"
  proof (rule collect_map_total)
    fix kv assume kv: "kv \<in> set kvs"
    from collect_map_Inr_D [OF rs kv] obtain t where "json_dumps (snd kv) m (d - 1) = Inr t"
      by (auto split: sum.splits)
    moreover from kv have "snd kv \<in> Basic_BNFs.snds kv"
      by (auto simp: snds.simps)
    ultimately obtain u where "py_repr (snd kv) sr m (d - 1) = Inr u"
      using PyDict.IH kv by blast
    then show "\<exists>y. ?g kv = Inr y" by simp
  qed
  with d show ?case
    unfolding py_repr.simps g by auto
qed simp_all

lemma json_dumps_dict_value:
  assumes "json_dumps (PyDict kvs) m d = Inr s" and "(k, v) \<in> set kvs"
  shows "\<exists>t. json_dumps v m (d - 1) = Inr t"
proof -
  let ?f = "\<lambda>kv. case json_dumps (snd kv) m (d - 1) of
                    Inl e \<Rightarrow> Inl e
                  | Inr t \<Rightarrow> Inr (encode_basestring_ascii (fst kv) @ lit '': '' @ t)"
  have f: "map (\<lambda>(k, r). case r of Inl e \<Rightarrow> Inl e
                          | Inr s \<Rightarrow> Inr (encode_basestring_ascii k @ lit '': '' @ s))
             (map (map_prod id (\<lambda>v. json_dumps v m (d - 1))) kvs) = map ?f kvs"
    by (auto simp: case_prod_unfold split: sum.splits)
  from assms(1) obtain rs where rs: "collect (map ?f kvs) = Inr rs"
    unfolding json_dumps.simps f by (auto split: if_splits sum.splits)
  from collect_map_Inr_D [OF rs assms(2)] show ?thesis
    by (auto split: sum.splits)
qed

lemma json_dumps_dict_nonempty: "json_dumps (PyDict kvs) m d = Inr s \<Longrightarrow> s \<noteq> []"
  by (auto simp: lit_Cons split: if_splits sum.splits)

lemma payload_bytes_Inr:
  assumes "payload_bytes rt payload = Inr bs"
  shows "\<exists>js. json_dumps (PyDict payload) (max_str_digits rt) (depth_left rt + 3) = Inr js
             \<and> bs = map of_nat js \<and> bs \<noteq> []"
proof -
  from assms obtain js
    where t: "json_dumps (PyDict payload) (max_str_digits rt) (depth_left rt + 3) = Inr js"
      and e: "encode_utf8 js = Inr bs"
    by (auto simp: payload_bytes_def split: sum.splits)
  from t have "isascii js" by (rule isascii_json_dumps)
  with e have "bs = map of_nat js" by (simp add: encode_utf8_ascii)
  moreover from t have "js \<noteq> []" by (rule json_dumps_dict_nonempty)
  ultimately show ?thesis using t by simp
qed

lemma payload_bytes_json_dumps:
  assumes "json_dumps (PyDict payload) (max_str_digits rt) (depth_left rt + 3) = Inr js"
  shows "payload_bytes rt payload = Inr (map of_nat js)"
  using assms isascii_json_dumps [OF assms]
  by (simp add: payload_bytes_def encode_utf8_ascii del: json_dumps.simps)

lemma py_format_of_payload:
  assumes "payload_bytes rt payload = Inr bs"
  shows "\<exists>t. py_format rt (dict_get payload k) = Inr t"
proof (cases "map_of payload k")
  case None
  then show ?thesis by (simp add: dict_get_def py_format_def)
next
  case (Some v)
  then have kv: "(k, v) \<in> set payload" by (rule map_of_SomeD)
  from payload_bytes_Inr [OF assms] obtain js
    where "json_dumps (PyDict payload) (max_str_digits rt) (depth_left rt + 3) = Inr js"
    by blast
  from json_dumps_dict_value [OF this kv] obtain t
    where "json_dumps v (max_str_digits rt) (depth_left rt + 3 - 1) = Inr t"
    by blast
  then have "json_dumps v (max_str_digits rt) (depth_left rt + 3) = Inr t"
    by (rule json_dumps_mono) simp
  from json_dumps_py_repr [OF this] obtain u
    where "py_repr v (str_repr rt) (max_str_digits rt) (depth_left rt + 3) = Inr u"
    by blast
  with Some show ?thesis
    by (cases v) (simp_all add: dict_get_def py_format_def)
qed

lemma json_dumps_nested:
  "json_dumps (nested n v) m d =
     (if d < n then Inl RecursionError
      else case json_dumps v m (d - n) of
             Inl e \<Rightarrow> Inl e
           | Inr s \<Rightarrow> Inr (replicate n 91 @ s @ replicate n 93))"
proof (induction n arbitrary: d)
  case 0
  show ?case by (simp split: sum.splits)
next
  case (Suc n)
  show ?case
  proof (cases "d < Suc n")
    case True
    then show ?thesis by (auto simp: Suc)
  next
    case False
    then have n: "\<not> d - 1 < n" and d: "d \<noteq> 0" and e: "d - 1 - n = d - Suc n"
      by simp_all
    show ?thesis
    proof (cases "json_dumps v m (d - Suc n)")
      case (Inl x)
      with False n d e show ?thesis by (simp add: Suc)
    next
      case (Inr x)
      with False n d e show ?thesis
        by (simp add: Suc lit_Cons lit_Nil replicate_append_same)
    qed
  qed
qed

lemma format_log_no_kwargs: "format_log rt line [] = Inr line"
  by (simp add: format_log_def)

lemma format_log_str:
  "format_log rt line [(k, PyStr s)]
   = Inr (line @ lit '' | {'' @ encode_basestring_ascii k @ lit '': ''
          @ encode_basestring_ascii s @ lit ''}'')"
  by (simp add: format_log_def lit_def)

lemma format_log_None:
  "format_log rt line [(k, PyNone)]
   = Inr (line @ lit '' | {'' @ encode_basestring_ascii k @ lit '': null}'')"
  by (simp add: format_log_def lit_def)

section \<open>The dispatcher: rejections and escaping exceptions\<close>

lemma validate_signature_True_nonempty:
  "validate_signature payload signature secret = Inr True \<Longrightarrow> signature \<noteq> [] \<and> secret \<noteq> []"
  by (auto simp: validate_signature_def)

lemma logger_error_no_kwargs:
  "logger_error rt line exc [] st
   = Inr (st\<lparr>log_output := log_output st
                @ [\<lparr>levelname = ERROR, msg = line, exc_info = exc\<rparr>]\<rparr>)"
  by (simp add: logger_error_def format_log_no_kwargs)

lemma encode_basestring_ascii_source:
  "encode_basestring_ascii (lit ''source'') = [34] @ lit ''source'' @ [34]"
  "encode_basestring_ascii (lit ''notion'') = [34] @ lit ''notion'' @ [34]"
  "encode_basestring_ascii (lit ''facility_id'') = [34] @ lit ''facility_id'' @ [34]"
  by (simp_all add: encode_basestring_ascii_def escape_ascii_def lit_def)

lemma logger_info_validated:
  "logger_info rt (lit ''Webhook signature validated'') [(lit ''source'', PyStr (lit ''notion''))] st
   = Inr (st\<lparr>log_output := log_output st
                @ [\<lparr>levelname = INFO,
                    msg = lit ''Webhook signature validated | {'' @ [34] @ lit ''source'' @ [34]
                          @ lit '': '' @ [34] @ lit ''notion'' @ [34] @ lit ''}'',
                    exc_info = None\<rparr>]\<rparr>)"
  by (simp add: logger_info_def format_log_str encode_basestring_ascii_source)
     (simp add: lit_def)

lemma process_missing_header:
  assumes "headers (lit ''Notion-Signature'') = None \<or> headers (lit ''Notion-Signature'') = Some []"
  shows "process_notion_webhook rt payload headers st
         = (Inr None,
            st\<lparr>log_output := log_output st
                 @ [\<lparr>levelname = ERROR, msg = lit ''Missing signature header'',
                     exc_info = None\<rparr>]\<rparr>)"
  using assms by (auto simp: process_notion_webhook_def logger_error_no_kwargs)

lemma process_missing_secret:
  assumes "headers (lit ''Notion-Signature'') = Some signature" and "signature \<noteq> []"
    and "environ st (lit ''NOTION_WEBHOOK_SECRET'') = None
         \<or> environ st (lit ''NOTION_WEBHOOK_SECRET'') = Some []"
  shows "process_notion_webhook rt payload headers st
         = (Inr None,
            st\<lparr>log_output := log_output st
                 @ [\<lparr>levelname = ERROR, msg = lit ''Webhook secret not configured'',
                     exc_info = None\<rparr>]\<rparr>)"
  using assms by (auto simp: process_notion_webhook_def logger_error_no_kwargs)

lemma process_after_encoding:
  assumes "headers (lit ''Notion-Signature'') = Some signature" and "signature \<noteq> []"
    and "environ st (lit ''NOTION_WEBHOOK_SECRET'') = Some secret" and "secret \<noteq> []"
    and "payload_bytes rt payload = Inr bs"
  shows "process_notion_webhook rt payload headers st
         = (case validate_signature bs signature secret of
              Inl e \<Rightarrow> (Inl e, st)
            | Inr valid \<Rightarrow>
                if \<not> valid then
                  (Inr None,
                   st\<lparr>log_output := log_output st
                        @ [\<lparr>levelname = ERROR, msg = lit ''Invalid webhook signature'',
                            exc_info = None\<rparr>]\<rparr>)
                else
                  (case handle_event rt payload
                          (st\<lparr>log_output := log_output st
                               @ [\<lparr>levelname = INFO,
                                   msg = lit ''Webhook signature validated | {'' @ [34]
                                         @ lit ''source'' @ [34] @ lit '': '' @ [34]
                                         @ lit ''notion'' @ [34] @ lit ''}'',
                                   exc_info = None\<rparr>]\<rparr>) of
                     (Inr response, st2) \<Rightarrow> (Inr (Some response), st2)
                   | (Inl e, st2) \<Rightarrow>
                       (Inr None,
                        st2\<lparr>log_output := log_output st2
                              @ [\<lparr>levelname = ERROR, msg = lit ''Error processing webhook'',
                                  exc_info = Some e\<rparr>]\<rparr>)))"
  using assms
  by (simp add: process_notion_webhook_def logger_error_no_kwargs logger_info_validated
      split: sum.splits prod.splits)

lemma process_payload_not_serialisable:
  assumes "headers (lit ''Notion-Signature'') = Some signature" and "signature \<noteq> []"
    and "environ st (lit ''NOTION_WEBHOOK_SECRET'') = Some secret" and "secret \<noteq> []"
    and "payload_bytes rt payload = Inl e"
  shows "process_notion_webhook rt payload headers st = (Inl e, st)"
  using assms by (simp add: process_notion_webhook_def)

lemma process_invalid_signature:
  assumes "headers (lit ''Notion-Signature'') = Some signature"
    and "environ st (lit ''NOTION_WEBHOOK_SECRET'') = Some secret"
    and "signature \<noteq> []" and "secret \<noteq> []"
    and "payload_bytes rt payload = Inr bs"
    and "validate_signature bs signature secret = Inr False"
  shows "process_notion_webhook rt payload headers st
         = (Inr None,
            st\<lparr>log_output := log_output st
                 @ [\<lparr>levelname = ERROR, msg = lit ''Invalid webhook signature'',
                     exc_info = None\<rparr>]\<rparr>)"
  using assms by (simp add: process_after_encoding)

lemma process_raises:
  assumes "headers (lit ''Notion-Signature'') = Some signature"
    and "environ st (lit ''NOTION_WEBHOOK_SECRET'') = Some secret"
    and "signature \<noteq> []" and "secret \<noteq> []"
    and "payload_bytes rt payload = Inr bs"
    and "validate_signature bs signature secret = Inl e"
  shows "process_notion_webhook rt payload headers st = (Inl e, st)"
  using assms by (simp add: process_after_encoding)

lemma process_validated:
  assumes "headers (lit ''Notion-Signature'') = Some signature"
    and "environ st (lit ''NOTION_WEBHOOK_SECRET'') = Some secret"
    and "payload_bytes rt payload = Inr bs"
    and "validate_signature bs signature secret = Inr True"
  shows "process_notion_webhook rt payload headers st
         = (case handle_event rt payload
                   (st\<lparr>log_output := log_output st
                        @ [\<lparr>levelname = INFO,
                            msg = lit ''Webhook signature validated | {'' @ [34]
                                  @ lit ''source'' @ [34] @ lit '': '' @ [34]
                                  @ lit ''notion'' @ [34] @ lit ''}'',
                            exc_info = None\<rparr>]\<rparr>) of
              (Inr response, st2) \<Rightarrow> (Inr (Some response), st2)
            | (Inl e, st2) \<Rightarrow>
                (Inr None,
                 st2\<lparr>log_output := log_output st2
                       @ [\<lparr>levelname = ERROR, msg = lit ''Error processing webhook'',
                           exc_info = Some e\<rparr>]\<rparr>))"
proof -
  from assms(4) have "signature \<noteq> []" and "secret \<noteq> []"
    using validate_signature_True_nonempty by blast+
  with assms show ?thesis
    by (simp add: process_after_encoding)
qed

lemma validate_signature_non_ascii:
  assumes "payload \<noteq> []" and "signature \<noteq> []" and "secret \<noteq> []"
    and "encode_utf8 secret = Inr key" and "\<not> isascii signature"
  shows "validate_signature payload signature secret = Inl TypeError"
  using assms by (simp add: validate_signature_def compare_digest_def)

lemma validate_signature_surrogate_secret:
  assumes "payload \<noteq> []" and "signature \<noteq> []" and "secret \<noteq> []"
    and "encode_utf8 secret = Inl e"
  shows "validate_signature payload signature secret = Inl e"
  using assms by (simp add: validate_signature_def)

lemma payload_bytes_empty_dict: "payload_bytes rt [] = Inr [123, 125]"
  by (simp add: payload_bytes_def lit_Cons lit_Nil utf8_char_def)

text \<open>
  C3. The call of \<^verbatim>\<open>validate_signature\<close> on line 63 stands outside the \<^verbatim>\<open>try\<close> block.
  With the header \<^verbatim>\<open>Notion-Signature: \xe9\<close>, the secret \<^verbatim>\<open>'s'\<close> and the payload \<^verbatim>\<open>{}\<close>,
  \<^verbatim>\<open>hmac.compare_digest\<close> raises \<^verbatim>\<open>TypeError\<close> and the exception leaves
  \<^verbatim>\<open>process_notion_webhook\<close>: nothing is returned and nothing is logged.
\<close>

theorem process_non_ascii_signature_raises:
  "process_notion_webhook \<lparr>str_repr = \<lambda>s. s, max_str_digits = 4300, depth_left = 900\<rparr> []
     [lit ''Notion-Signature'' \<mapsto> [233]]
     \<lparr>environ = [lit ''NOTION_WEBHOOK_SECRET'' \<mapsto> lit ''s''], log_output = []\<rparr>
   = (Inl TypeError,
      \<lparr>environ = [lit ''NOTION_WEBHOOK_SECRET'' \<mapsto> lit ''s''], log_output = []\<rparr>)"
proof -
  have "validate_signature [123, 125] [233] (lit ''s'') = Inl TypeError"
    by (rule validate_signature_non_ascii [where key = "[115]"])
       (simp_all add: lit_Cons lit_Nil utf8_char_def isascii_Cons)
  then show ?thesis
    by (intro process_raises [where signature = "[233]" and secret = "lit ''s''"
          and bs = "[123, 125]"])
       (simp_all add: lit_Cons payload_bytes_empty_dict)
qed

section \<open>The dispatcher: accepted events\<close>

lemma lit_append: "lit (s @ t) = lit s @ lit t"
  by (simp add: lit_def)

lemma py_format_str: "py_format rt (PyStr s) = Inr s"
  by (simp add: py_format_def)

lemma py_format_None: "py_format rt PyNone = Inr (lit ''None'')"
  by (simp add: py_format_def)

lemma dict_get_missing: "map_of d k = None \<Longrightarrow> dict_get d k = PyNone"
  by (simp add: dict_get_def)

lemma int_str_one: "int_str m 1 = Inr [49]"
  by (auto simp: int_str_def nat_digits.simps Let_def)

lemma logger_info_same_kwargs:
  assumes "format_log rt line kwargs = Inr l"
  shows "\<exists>l'. format_log rt line' kwargs = Inr l'"
  using assms by (auto simp: format_log_def split: if_splits sum.splits)

lemma handle_event_fst:
  assumes "py_format rt (dict_get payload (lit ''type'')) = Inr et"
    and "py_format rt (dict_get payload (lit ''facility_id'')) = Inr ft"
  shows "fst (handle_event rt payload st)
         = (case format_log rt (lit ''Received '' @ et @ lit '' event'')
                   [(lit ''facility_id'', dict_get payload (lit ''facility_id''))] of
              Inl e \<Rightarrow> Inl e
            | Inr line \<Rightarrow>
                Inr \<lparr>status = lit ''success'',
                     message = lit ''Processed '' @ et @ lit '' event for facility '' @ ft,
                     data = \<lparr>facility_id = dict_get payload (lit ''facility_id''),
                             event_type = dict_get payload (lit ''type''),
                             timestamp = dict_get payload (lit ''timestamp'')\<rparr>\<rparr>)"
  using assms
  by (auto simp: handle_event_def logger_info_def format_log_def Let_def
      split: sum.splits simp del: json_dumps.simps)

lemma handle_event_unrecognized:
  assumes "py_format rt (dict_get payload (lit ''type'')) = Inr et"
    and "py_format rt (dict_get payload (lit ''facility_id'')) = Inr ft"
    and "dict_get payload (lit ''type'') \<noteq> PyStr (lit ''facility.updated'')"
    and "dict_get payload (lit ''type'') \<noteq> PyStr (lit ''facility.verified'')"
    and "dict_get payload (lit ''type'') \<noteq> PyStr (lit ''facility.deleted'')"
  shows "handle_event rt payload st
         = (case format_log rt (lit ''Received '' @ et @ lit '' event'')
                   [(lit ''facility_id'', dict_get payload (lit ''facility_id''))] of
              Inl e \<Rightarrow> (Inl e, st)
            | Inr line \<Rightarrow>
                (Inr \<lparr>status = lit ''success'',
                      message = lit ''Processed '' @ et @ lit '' event for facility '' @ ft,
                      data = \<lparr>facility_id = dict_get payload (lit ''facility_id''),
                              event_type = dict_get payload (lit ''type''),
                              timestamp = dict_get payload (lit ''timestamp'')\<rparr>\<rparr>,
                 st\<lparr>log_output := log_output st
                      @ [\<lparr>levelname = INFO, msg = line, exc_info = None\<rparr>]\<rparr>))"
  using assms
  by (simp add: handle_event_def logger_info_def Let_def split: sum.splits)

lemma process_validated_fst:
  assumes "headers (lit ''Notion-Signature'') = Some signature"
    and "environ st (lit ''NOTION_WEBHOOK_SECRET'') = Some secret"
    and "payload_bytes rt payload = Inr bs"
    and "validate_signature bs signature secret = Inr True"
    and "py_format rt (dict_get payload (lit ''type'')) = Inr et"
    and "py_format rt (dict_get payload (lit ''facility_id'')) = Inr ft"
  shows "fst (process_notion_webhook rt payload headers st)
         = (case format_log rt (lit ''Received '' @ et @ lit '' event'')
                   [(lit ''facility_id'', dict_get payload (lit ''facility_id''))] of
              Inl e \<Rightarrow> Inr None
            | Inr line \<Rightarrow>
                Inr (Some \<lparr>status = lit ''success'',
                     message = lit ''Processed '' @ et @ lit '' event for facility '' @ ft,
                     data = \<lparr>facility_id = dict_get payload (lit ''facility_id''),
                             event_type = dict_get payload (lit ''type''),
                             timestamp = dict_get payload (lit ''timestamp'')\<rparr>\<rparr>))"
proof -
  let ?st1 = "st\<lparr>log_output := log_output st
                   @ [\<lparr>levelname = INFO,
                       msg = lit ''Webhook signature validated | {'' @ [34]
                             @ lit ''source'' @ [34] @ lit '': '' @ [34]
                             @ lit ''notion'' @ [34] @ lit ''}'',
                       exc_info = None\<rparr>]\<rparr>"
  obtain r st2 where h: "handle_event rt payload ?st1 = (r, st2)"
    by (cases "handle_event rt payload ?st1")
  then have "fst (handle_event rt payload ?st1) = r" by simp
  with handle_event_fst [OF assms(5,6), of ?st1]
  have r: "r = (case format_log rt (lit ''Received '' @ et @ lit '' event'')
                      [(lit ''facility_id'', dict_get payload (lit ''facility_id''))] of
                  Inl e \<Rightarrow> Inl e
                | Inr line \<Rightarrow>
                    Inr \<lparr>status = lit ''success'',
                         message = lit ''Processed '' @ et @ lit '' event for facility '' @ ft,
                         data = \<lparr>facility_id = dict_get payload (lit ''facility_id''),
                                 event_type = dict_get payload (lit ''type''),
                                 timestamp = dict_get payload (lit ''timestamp'')\<rparr>\<rparr>)"
    by simp
  show ?thesis
    unfolding process_validated [where headers = headers, OF assms(1-4)] h
    by (simp add: r split: sum.splits)
qed

text \<open>
  C6. For a payload whose \<^verbatim>\<open>type\<close> is \<^verbatim>\<open>"facility.updated"\<close> and whose \<^verbatim>\<open>facility_id\<close> is
  \<^verbatim>\<open>"42"\<close>, when the signature header validates against the configured secret (on the
  bytes of line 60), \<^verbatim>\<open>process_notion_webhook\<close> returns the response with status
  \<^verbatim>\<open>"success"\<close>, the message \<^verbatim>\<open>"Processed facility.updated event for facility 42"\<close>
  (which contains both \<^verbatim>\<open>"facility.updated"\<close> and \<^verbatim>\<open>"42"\<close>) and a \<^verbatim>\<open>data\<close> that echoes
  the facility id, the event type and the timestamp of the payload.
\<close>

theorem process_facility_updated:
  assumes "dict_get payload (lit ''type'') = PyStr (lit ''facility.updated'')"
    and "dict_get payload (lit ''facility_id'') = PyStr (lit ''42'')"
    and "headers (lit ''Notion-Signature'') = Some signature"
    and "environ st (lit ''NOTION_WEBHOOK_SECRET'') = Some secret"
    and "payload_bytes rt payload = Inr bs"
    and "validate_signature bs signature secret = Inr True"
  shows "fst (process_notion_webhook rt payload headers st)
         = Inr (Some \<lparr>status = lit ''success'',
                       message = lit ''Processed facility.updated event for facility 42'',
                       data = \<lparr>facility_id = PyStr (lit ''42''),
                               event_type = PyStr (lit ''facility.updated''),
                               timestamp = dict_get payload (lit ''timestamp'')\<rparr>\<rparr>)
         \<and> sublist (lit ''facility.updated'')
               (lit ''Processed facility.updated event for facility 42'')
         \<and> sublist (lit ''42'') (lit ''Processed facility.updated event for facility 42'')"
proof -
  have m: "lit ''Processed '' @ lit ''facility.updated'' @ lit '' event for facility '' @ lit ''42''
           = lit ''Processed facility.updated event for facility 42''"
    by (simp add: lit_def)
  have "sublist (lit ''facility.updated'')
          (lit ''Processed '' @ lit ''facility.updated'' @ lit '' event for facility '' @ lit ''42'')"
    unfolding sublist_def by blast
  moreover have "sublist (lit ''42'')
          ((lit ''Processed '' @ lit ''facility.updated'' @ lit '' event for facility '') @ lit ''42'' @ [])"
    unfolding sublist_def by blast
  moreover have "fst (process_notion_webhook rt payload headers st)
         = Inr (Some \<lparr>status = lit ''success'',
                       message = lit ''Processed '' @ lit ''facility.updated''
                                 @ lit '' event for facility '' @ lit ''42'',
                       data = \<lparr>facility_id = PyStr (lit ''42''),
                               event_type = PyStr (lit ''facility.updated''),
                               timestamp = dict_get payload (lit ''timestamp'')\<rparr>\<rparr>)"
    using process_validated_fst [where headers = headers, OF assms(3-6),
        of "lit ''facility.updated''" "lit ''42''"]
    by (simp add: assms(1,2) py_format_str format_log_str)
  ultimately show ?thesis
    using m by simp
qed

theorem process_facility_updated_witness:
  "fst (process_notion_webhook
          \<lparr>str_repr = \<lambda>s. 39 # s @ [39], max_str_digits = 4300, depth_left = 900\<rparr>
          [(lit ''type'', PyStr (lit ''facility.updated'')),
           (lit ''facility_id'', PyStr (lit ''42'')),
           (lit ''timestamp'', PyStr (lit ''2024-01-01T00:00:00Z''))]
          [lit ''Notion-Signature'' \<mapsto>
             hexdigest (hmac_sha256 [107, 101, 121]
               (projr (payload_bytes
                  \<lparr>str_repr = \<lambda>s. 39 # s @ [39], max_str_digits = 4300, depth_left = 900\<rparr>
                  [(lit ''type'', PyStr (lit ''facility.updated'')),
                   (lit ''facility_id'', PyStr (lit ''42'')),
                   (lit ''timestamp'', PyStr (lit ''2024-01-01T00:00:00Z''))])))]
          \<lparr>environ = [lit ''NOTION_WEBHOOK_SECRET'' \<mapsto> lit ''key''], log_output = []\<rparr>)
   = Inr (Some \<lparr>status = lit ''success'',
                 message = lit ''Processed facility.updated event for facility 42'',
                 data = \<lparr>facility_id = PyStr (lit ''42''),
                         event_type = PyStr (lit ''facility.updated''),
                         timestamp = PyStr (lit ''2024-01-01T00:00:00Z'')\<rparr>\<rparr>)"
proof -
  let ?rt = "\<lparr>str_repr = \<lambda>s. 39 # s @ [39], max_str_digits = 4300, depth_left = 900\<rparr>"
  let ?p = "[(lit ''type'', PyStr (lit ''facility.updated'')),
             (lit ''facility_id'', PyStr (lit ''42'')),
             (lit ''timestamp'', PyStr (lit ''2024-01-01T00:00:00Z''))]"
  let ?bs = "projr (payload_bytes ?rt ?p)"
  let ?sig = "hexdigest (hmac_sha256 [107, 101, 121] ?bs)"
  let ?st = "\<lparr>environ = [lit ''NOTION_WEBHOOK_SECRET'' \<mapsto> lit ''key''], log_output = []\<rparr>"
  have "\<exists>js. json_dumps (PyDict ?p) (max_str_digits ?rt) (depth_left ?rt + 3) = Inr js"
    by simp
  then obtain js where "json_dumps (PyDict ?p) (max_str_digits ?rt) (depth_left ?rt + 3) = Inr js"
    by blast
  then have b: "payload_bytes ?rt ?p = Inr ?bs"
    by (simp only: payload_bytes_json_dumps sum.sel)
  then have ne: "?bs \<noteq> []"
    using payload_bytes_Inr by blast
  have v: "validate_signature ?bs ?sig (lit ''key'') = Inr True"
    using ne by (intro validate_signature_computed) (simp_all add: lit_Cons lit_Nil utf8_char_def)
  have t: "dict_get ?p (lit ''type'') = PyStr (lit ''facility.updated'')"
    by (simp add: dict_get_def)
  have f: "dict_get ?p (lit ''facility_id'') = PyStr (lit ''42'')"
    by (simp add: dict_get_def lit_eq_iff)
  have ts: "dict_get ?p (lit ''timestamp'') = PyStr (lit ''2024-01-01T00:00:00Z'')"
    by (simp add: dict_get_def lit_eq_iff)
  have h: "[lit ''Notion-Signature'' \<mapsto> ?sig] (lit ''Notion-Signature'') = Some ?sig"
    by simp
  have e: "environ ?st (lit ''NOTION_WEBHOOK_SECRET'') = Some (lit ''key'')"
    by simp
  from process_facility_updated
         [where rt = ?rt and headers = "[lit ''Notion-Signature'' \<mapsto> ?sig]" and st = ?st,
          OF t f h e b v]
  show ?thesis
    by (simp only: ts)
qed

text \<open>
  C7, amended. For a payload whose \<^verbatim>\<open>type\<close> is none of \<^verbatim>\<open>facility.updated\<close>,
  \<^verbatim>\<open>facility.verified\<close> and \<^verbatim>\<open>facility.deleted\<close>, when the signature validates, no
  handler branch runs: no "Processing facility ..." record is logged. The success
  envelope is returned, after the two records "Webhook signature validated" and
  "Received ... event", when the logger can write out \<^verbatim>\<open>{"facility_id": ...}\<close> on line
  75. When it cannot (its \<^verbatim>\<open>json.dumps\<close> raises), the exception is caught, "Error
  processing webhook" is logged and \<^verbatim>\<open>None\<close> is returned.
\<close>

theorem process_unrecognized_type:
  assumes "headers (lit ''Notion-Signature'') = Some signature"
    and "environ st (lit ''NOTION_WEBHOOK_SECRET'') = Some secret"
    and "payload_bytes rt payload = Inr bs"
    and "validate_signature bs signature secret = Inr True"
    and "dict_get payload (lit ''type'') \<noteq> PyStr (lit ''facility.updated'')"
    and "dict_get payload (lit ''type'') \<noteq> PyStr (lit ''facility.verified'')"
    and "dict_get payload (lit ''type'') \<noteq> PyStr (lit ''facility.deleted'')"
  shows "\<exists>et ft.
           py_format rt (dict_get payload (lit ''type'')) = Inr et
         \<and> py_format rt (dict_get payload (lit ''facility_id'')) = Inr ft
         \<and> process_notion_webhook rt payload headers st
           = (case format_log rt (lit ''Received '' @ et @ lit '' event'')
                     [(lit ''facility_id'', dict_get payload (lit ''facility_id''))] of
                Inr line \<Rightarrow>
                  (Inr (Some \<lparr>status = lit ''success'',
                               message = lit ''Processed '' @ et
                                         @ lit '' event for facility '' @ ft,
                               data = \<lparr>facility_id = dict_get payload (lit ''facility_id''),
                                       event_type = dict_get payload (lit ''type''),
                                       timestamp = dict_get payload (lit ''timestamp'')\<rparr>\<rparr>),
                   st\<lparr>log_output := log_output st
                        @ [\<lparr>levelname = INFO,
                            msg = lit ''Webhook signature validated | {'' @ [34]
                                  @ lit ''source'' @ [34] @ lit '': '' @ [34]
                                  @ lit ''notion'' @ [34] @ lit ''}'',
                            exc_info = None\<rparr>,
                           \<lparr>levelname = INFO, msg = line, exc_info = None\<rparr>]\<rparr>)
              | Inl e \<Rightarrow>
                  (Inr None,
                   st\<lparr>log_output := log_output st
                        @ [\<lparr>levelname = INFO,
                            msg = lit ''Webhook signature validated | {'' @ [34]
                                  @ lit ''source'' @ [34] @ lit '': '' @ [34]
                                  @ lit ''notion'' @ [34] @ lit ''}'',
                            exc_info = None\<rparr>,
                           \<lparr>levelname = ERROR, msg = lit ''Error processing webhook'',
                            exc_info = Some e\<rparr>]\<rparr>))"
proof -
  from py_format_of_payload [OF assms(3)] obtain et ft
    where et: "py_format rt (dict_get payload (lit ''type'')) = Inr et"
      and ft: "py_format rt (dict_get payload (lit ''facility_id'')) = Inr ft"
    by blast
  show ?thesis
    using et ft
    by (auto simp: process_validated [where headers = headers, OF assms(1-4)]
        handle_event_unrecognized [OF et ft assms(5-7)] split: sum.splits)
qed

theorem process_unrecognized_type_witness:
  "process_notion_webhook
     \<lparr>str_repr = \<lambda>s. 39 # s @ [39], max_str_digits = 4300, depth_left = 900\<rparr>
     [(lit ''type'', PyStr (lit ''facility.archived'')), (lit ''facility_id'', PyStr (lit ''42''))]
     [lit ''Notion-Signature'' \<mapsto>
        hexdigest (hmac_sha256 [107, 101, 121]
          (projr (payload_bytes
             \<lparr>str_repr = \<lambda>s. 39 # s @ [39], max_str_digits = 4300, depth_left = 900\<rparr>
             [(lit ''type'', PyStr (lit ''facility.archived'')),
              (lit ''facility_id'', PyStr (lit ''42''))])))]
     \<lparr>environ = [lit ''NOTION_WEBHOOK_SECRET'' \<mapsto> lit ''key''], log_output = []\<rparr>
   = (Inr (Some \<lparr>status = lit ''success'',
                  message = lit ''Processed facility.archived event for facility 42'',
                  data = \<lparr>facility_id = PyStr (lit ''42''),
                          event_type = PyStr (lit ''facility.archived''),
                          timestamp = PyNone\<rparr>\<rparr>),
      \<lparr>environ = [lit ''NOTION_WEBHOOK_SECRET'' \<mapsto> lit ''key''],
       log_output =
         [\<lparr>levelname = INFO,
           msg = lit ''Webhook signature validated | {'' @ [34] @ lit ''source'' @ [34]
                 @ lit '': '' @ [34] @ lit ''notion'' @ [34] @ lit ''}'',
           exc_info = None\<rparr>,
          \<lparr>levelname = INFO,
           msg = lit ''Received facility.archived event | {'' @ [34] @ lit ''facility_id'' @ [34]
                 @ lit '': '' @ [34] @ lit ''42'' @ [34] @ lit ''}'',
           exc_info = None\<rparr>]\<rparr>)"
proof -
  let ?rt = "\<lparr>str_repr = \<lambda>s. 39 # s @ [39], max_str_digits = 4300, depth_left = 900\<rparr>"
  let ?p = "[(lit ''type'', PyStr (lit ''facility.archived'')),
             (lit ''facility_id'', PyStr (lit ''42''))]"
  let ?bs = "projr (payload_bytes ?rt ?p)"
  let ?sig = "hexdigest (hmac_sha256 [107, 101, 121] ?bs)"
  let ?st = "\<lparr>environ = [lit ''NOTION_WEBHOOK_SECRET'' \<mapsto> lit ''key''], log_output = []\<rparr>"
  have "\<exists>js. json_dumps (PyDict ?p) (max_str_digits ?rt) (depth_left ?rt + 3) = Inr js"
    by simp
  then obtain js where "json_dumps (PyDict ?p) (max_str_digits ?rt) (depth_left ?rt + 3) = Inr js"
    by blast
  then have b: "payload_bytes ?rt ?p = Inr ?bs"
    by (simp only: payload_bytes_json_dumps sum.sel)
  then have ne: "?bs \<noteq> []"
    using payload_bytes_Inr by blast
  have v: "validate_signature ?bs ?sig (lit ''key'') = Inr True"
    using ne by (intro validate_signature_computed) (simp_all add: lit_Cons lit_Nil utf8_char_def)
  have t: "dict_get ?p (lit ''type'') = PyStr (lit ''facility.archived'')"
    by (simp add: dict_get_def)
  have f: "dict_get ?p (lit ''facility_id'') = PyStr (lit ''42'')"
    by (simp add: dict_get_def lit_eq_iff)
  have ts: "dict_get ?p (lit ''timestamp'') = PyNone"
    by (simp add: dict_get_def lit_eq_iff)
  have h: "[lit ''Notion-Signature'' \<mapsto> ?sig] (lit ''Notion-Signature'') = Some ?sig"
    by simp
  have e: "environ ?st (lit ''NOTION_WEBHOOK_SECRET'') = Some (lit ''key'')"
    by simp
  have n: "dict_get ?p (lit ''type'') \<noteq> PyStr (lit ''facility.updated'')"
    "dict_get ?p (lit ''type'') \<noteq> PyStr (lit ''facility.verified'')"
    "dict_get ?p (lit ''type'') \<noteq> PyStr (lit ''facility.deleted'')"
    by (simp_all add: t lit_eq_iff)
  have m2: "format_log ?rt (lit ''Received '' @ lit ''facility.archived'' @ lit '' event'')
              [(lit ''facility_id'', PyStr (lit ''42''))]
            = Inr (lit ''Received facility.archived event | {'' @ [34] @ lit ''facility_id'' @ [34]
                 @ lit '': '' @ [34] @ lit ''42'' @ [34] @ lit ''}'')"
    by (simp add: format_log_str encode_basestring_ascii_def escape_ascii_def lit_def)
  have m3: "lit ''Processed '' @ lit ''facility.archived'' @ lit '' event for facility '' @ lit ''42''
            = lit ''Processed facility.archived event for facility 42''"
    by (simp add: lit_def)
  from process_unrecognized_type
         [where rt = ?rt and headers = "[lit ''Notion-Signature'' \<mapsto> ?sig]" and st = ?st,
          OF h e b v n]
  show ?thesis
    by (simp add: t f ts py_format_str m2 m3 del: json_dumps.simps)
qed

text \<open>The keyword dict of the logger, one level too deep for the room it has.\<close>

lemma format_log_too_deep:
  assumes "depth_left rt < n"
  shows "format_log rt line [(k, nested n v)] = Inl RecursionError"
  using assms by (simp add: format_log_def json_dumps_nested)

lemma payload_bytes_nested:
  assumes "n \<le> depth_left rt + 2"
  shows "\<exists>bs. payload_bytes rt [(lit ''type'', PyStr s), (lit ''facility_id'', nested n (PyInt 1))]
              = Inr bs"
    and "\<exists>bs. payload_bytes rt [(lit ''facility_id'', nested n (PyInt 1))] = Inr bs"
proof -
  have "\<not> Suc (Suc (depth_left rt)) < n"
    using assms by simp
  then have "\<exists>js. json_dumps (PyDict [(lit ''type'', PyStr s),
                                       (lit ''facility_id'', nested n (PyInt 1))])
                    (max_str_digits rt) (depth_left rt + 3) = Inr js"
    and "\<exists>js. json_dumps (PyDict [(lit ''facility_id'', nested n (PyInt 1))])
                    (max_str_digits rt) (depth_left rt + 3) = Inr js"
    by (simp_all add: json_dumps_nested int_str_one)
  then show "\<exists>bs. payload_bytes rt [(lit ''type'', PyStr s),
                                       (lit ''facility_id'', nested n (PyInt 1))] = Inr bs"
    and "\<exists>bs. payload_bytes rt [(lit ''facility_id'', nested n (PyInt 1))] = Inr bs"
    using payload_bytes_json_dumps by blast+
qed

text \<open>
  C7, as stated, fails. With room for 991 container levels in the logger, hence 993
  on line 60, a payload of type \<^verbatim>\<open>facility.archived\<close> whose \<^verbatim>\<open>facility_id\<close> is the number
  1 inside 991 lists is written out on line 60 and its signature validates; inside
  \<^verbatim>\<open>try\<close> the logger's \<^verbatim>\<open>json.dumps\<close>, two frames deeper, raises \<^verbatim>\<open>RecursionError\<close>, and
  the call logs "Error processing webhook" and returns \<^verbatim>\<open>None\<close>.
\<close>

theorem unrecognized_type_deep_facility_id_counterexample:
  "validate_signature
     (projr (payload_bytes
        \<lparr>str_repr = \<lambda>s. 39 # s @ [39], max_str_digits = 4300, depth_left = 990\<rparr>
        [(lit ''type'', PyStr (lit ''facility.archived'')),
         (lit ''facility_id'', nested 991 (PyInt 1))]))
     (hexdigest (hmac_sha256 [107, 101, 121]
        (projr (payload_bytes
           \<lparr>str_repr = \<lambda>s. 39 # s @ [39], max_str_digits = 4300, depth_left = 990\<rparr>
           [(lit ''type'', PyStr (lit ''facility.archived'')),
            (lit ''facility_id'', nested 991 (PyInt 1))]))))
     (lit ''key'') = Inr True
   \<and> process_notion_webhook
       \<lparr>str_repr = \<lambda>s. 39 # s @ [39], max_str_digits = 4300, depth_left = 990\<rparr>
       [(lit ''type'', PyStr (lit ''facility.archived'')),
        (lit ''facility_id'', nested 991 (PyInt 1))]
       [lit ''Notion-Signature'' \<mapsto>
          hexdigest (hmac_sha256 [107, 101, 121]
            (projr (payload_bytes
               \<lparr>str_repr = \<lambda>s. 39 # s @ [39], max_str_digits = 4300, depth_left = 990\<rparr>
               [(lit ''type'', PyStr (lit ''facility.archived'')),
                (lit ''facility_id'', nested 991 (PyInt 1))])))]
       \<lparr>environ = [lit ''NOTION_WEBHOOK_SECRET'' \<mapsto> lit ''key''], log_output = []\<rparr>
     = (Inr None,
        \<lparr>environ = [lit ''NOTION_WEBHOOK_SECRET'' \<mapsto> lit ''key''],
         log_output =
           [\<lparr>levelname = INFO,
             msg = lit ''Webhook signature validated | {'' @ [34] @ lit ''source'' @ [34]
                   @ lit '': '' @ [34] @ lit ''notion'' @ [34] @ lit ''}'',
             exc_info = None\<rparr>,
            \<lparr>levelname = ERROR, msg = lit ''Error processing webhook'',
             exc_info = Some RecursionError\<rparr>]\<rparr>)"
proof -
  let ?rt = "\<lparr>str_repr = \<lambda>s. 39 # s @ [39], max_str_digits = 4300, depth_left = 990\<rparr>"
  let ?p = "[(lit ''type'', PyStr (lit ''facility.archived'')),
             (lit ''facility_id'', nested 991 (PyInt 1))]"
  let ?bs = "projr (payload_bytes ?rt ?p)"
  let ?sig = "hexdigest (hmac_sha256 [107, 101, 121] ?bs)"
  let ?st = "\<lparr>environ = [lit ''NOTION_WEBHOOK_SECRET'' \<mapsto> lit ''key''], log_output = []\<rparr>"
  have "\<exists>bs. payload_bytes ?rt ?p = Inr bs"
    by (rule payload_bytes_nested) simp
  then have b: "payload_bytes ?rt ?p = Inr ?bs"
    by auto
  then have ne: "?bs \<noteq> []"
    using payload_bytes_Inr by blast
  have v: "validate_signature ?bs ?sig (lit ''key'') = Inr True"
    using ne by (intro validate_signature_computed) (simp_all add: lit_Cons lit_Nil utf8_char_def)
  have t: "dict_get ?p (lit ''type'') = PyStr (lit ''facility.archived'')"
    by (simp add: dict_get_def)
  have f: "dict_get ?p (lit ''facility_id'') = nested 991 (PyInt 1)"
    by (simp add: dict_get_def lit_eq_iff)
  have h: "[lit ''Notion-Signature'' \<mapsto> ?sig] (lit ''Notion-Signature'') = Some ?sig"
    by simp
  have e: "environ ?st (lit ''NOTION_WEBHOOK_SECRET'') = Some (lit ''key'')"
    by simp
  have et: "py_format ?rt (dict_get ?p (lit ''type'')) = Inr (lit ''facility.archived'')"
    by (simp only: t py_format_str)
  from py_format_of_payload [OF b] obtain ft
    where ft: "py_format ?rt (dict_get ?p (lit ''facility_id'')) = Inr ft"
    by blast
  have n: "dict_get ?p (lit ''type'') \<noteq> PyStr (lit ''facility.updated'')"
    "dict_get ?p (lit ''type'') \<noteq> PyStr (lit ''facility.verified'')"
    "dict_get ?p (lit ''type'') \<noteq> PyStr (lit ''facility.deleted'')"
    by (simp_all add: t lit_eq_iff)
  have d: "format_log ?rt (lit ''Received '' @ lit ''facility.archived'' @ lit '' event'')
             [(lit ''facility_id'', nested 991 (PyInt 1))] = Inl RecursionError"
    by (rule format_log_too_deep) simp
  have "process_notion_webhook ?rt ?p [lit ''Notion-Signature'' \<mapsto> ?sig] ?st
        = (Inr None,
           \<lparr>environ = [lit ''NOTION_WEBHOOK_SECRET'' \<mapsto> lit ''key''],
            log_output =
              [\<lparr>levelname = INFO,
                msg = lit ''Webhook signature validated | {'' @ [34] @ lit ''source'' @ [34]
                      @ lit '': '' @ [34] @ lit ''notion'' @ [34] @ lit ''}'',
                exc_info = None\<rparr>,
               \<lparr>levelname = ERROR, msg = lit ''Error processing webhook'',
                exc_info = Some RecursionError\<rparr>]\<rparr>)"
    unfolding process_validated [where headers = "[lit ''Notion-Signature'' \<mapsto> ?sig]", OF h e b v]
      handle_event_unrecognized [OF et ft n]
    by (simp add: f d)
  with v show ?thesis
    by blast
qed

text \<open>
  C10, amended. For a payload that passes signature validation and lacks the key
  \<^verbatim>\<open>type\<close> or the key \<^verbatim>\<open>facility_id\<close>, no exception leaves \<^verbatim>\<open>process_notion_webhook\<close>; a
  missing field is \<^verbatim>\<open>None\<close> in \<^verbatim>\<open>data\<close> and the text \<^verbatim>\<open>None\<close> in the message. When
  \<^verbatim>\<open>facility_id\<close> is the missing key the success envelope is always returned. When only
  \<^verbatim>\<open>type\<close> is missing, it is returned if the logger can write out
  \<^verbatim>\<open>{"facility_id": ...}\<close> on line 75, and otherwise the exception is caught and \<^verbatim>\<open>None\<close>
  is returned.
\<close>

theorem process_missing_fields:
  assumes "headers (lit ''Notion-Signature'') = Some signature"
    and "environ st (lit ''NOTION_WEBHOOK_SECRET'') = Some secret"
    and "payload_bytes rt payload = Inr bs"
    and "validate_signature bs signature secret = Inr True"
    and "map_of payload (lit ''type'') = None \<or> map_of payload (lit ''facility_id'') = None"
  shows "\<exists>et ft.
           py_format rt (dict_get payload (lit ''type'')) = Inr et
         \<and> py_format rt (dict_get payload (lit ''facility_id'')) = Inr ft
         \<and> (map_of payload (lit ''type'') = None \<longrightarrow>
              dict_get payload (lit ''type'') = PyNone \<and> et = lit ''None'')
         \<and> (map_of payload (lit ''facility_id'') = None \<longrightarrow>
              dict_get payload (lit ''facility_id'') = PyNone \<and> ft = lit ''None'')
         \<and> fst (process_notion_webhook rt payload headers st)
           = (case format_log rt (lit ''Received '' @ et @ lit '' event'')
                     [(lit ''facility_id'', dict_get payload (lit ''facility_id''))] of
                Inr line \<Rightarrow>
                  Inr (Some \<lparr>status = lit ''success'',
                              message = lit ''Processed '' @ et
                                        @ lit '' event for facility '' @ ft,
                              data = \<lparr>facility_id = dict_get payload (lit ''facility_id''),
                                      event_type = dict_get payload (lit ''type''),
                                      timestamp = dict_get payload (lit ''timestamp'')\<rparr>\<rparr>)
              | Inl e \<Rightarrow> Inr None)
         \<and> (map_of payload (lit ''facility_id'') = None \<longrightarrow>
              fst (process_notion_webhook rt payload headers st)
              = Inr (Some \<lparr>status = lit ''success'',
                            message = lit ''Processed '' @ et
                                      @ lit '' event for facility None'',
                            data = \<lparr>facility_id = PyNone,
                                    event_type = dict_get payload (lit ''type''),
                                    timestamp = dict_get payload (lit ''timestamp'')\<rparr>\<rparr>))"
proof -
  from py_format_of_payload [OF assms(3)] obtain et ft
    where et: "py_format rt (dict_get payload (lit ''type'')) = Inr et"
      and ft: "py_format rt (dict_get payload (lit ''facility_id'')) = Inr ft"
    by blast
  note r = process_validated_fst [where headers = headers, OF assms(1-4) et ft]
  have a: "lit '' event for facility '' @ lit ''None'' = lit '' event for facility None''"
    by (simp add: lit_def)
  have 1: "dict_get payload (lit ''type'') = PyNone \<and> et = lit ''None''"
    if "map_of payload (lit ''type'') = None"
    using that et by (simp add: dict_get_missing py_format_None)
  have 2: "dict_get payload (lit ''facility_id'') = PyNone \<and> ft = lit ''None''"
    if "map_of payload (lit ''facility_id'') = None"
    using that ft by (simp add: dict_get_missing py_format_None)
  have 3: "fst (process_notion_webhook rt payload headers st)
           = Inr (Some \<lparr>status = lit ''success'',
                         message = lit ''Processed '' @ et @ lit '' event for facility None'',
                         data = \<lparr>facility_id = PyNone,
                                 event_type = dict_get payload (lit ''type''),
                                 timestamp = dict_get payload (lit ''timestamp'')\<rparr>\<rparr>)"
    if "map_of payload (lit ''facility_id'') = None"
    using 2 [OF that] r by (simp add: format_log_None a)
  show ?thesis
  proof (rule exI [of _ et], rule exI [of _ ft], intro conjI impI)
    show "py_format rt (dict_get payload (lit ''type'')) = Inr et"
      by (rule et)
    show "py_format rt (dict_get payload (lit ''facility_id'')) = Inr ft"
      by (rule ft)
  qed (use r 1 2 3 in simp_all)
qed

theorem process_missing_fields_witness:
  "fst (process_notion_webhook
          \<lparr>str_repr = \<lambda>s. 39 # s @ [39], max_str_digits = 4300, depth_left = 900\<rparr> []
          [lit ''Notion-Signature'' \<mapsto> hexdigest (hmac_sha256 [107, 101, 121] [123, 125])]
          \<lparr>environ = [lit ''NOTION_WEBHOOK_SECRET'' \<mapsto> lit ''key''], log_output = []\<rparr>)
   = Inr (Some \<lparr>status = lit ''success'',
                 message = lit ''Processed None event for facility None'',
                 data = \<lparr>facility_id = PyNone, event_type = PyNone, timestamp = PyNone\<rparr>\<rparr>)"
proof -
  let ?rt = "\<lparr>str_repr = \<lambda>s. 39 # s @ [39], max_str_digits = 4300, depth_left = 900\<rparr>"
  let ?sig = "hexdigest (hmac_sha256 [107, 101, 121] [123, 125])"
  let ?st = "\<lparr>environ = [lit ''NOTION_WEBHOOK_SECRET'' \<mapsto> lit ''key''], log_output = []\<rparr>"
  have b: "payload_bytes ?rt [] = Inr [123, 125]"
    by (rule payload_bytes_empty_dict)
  have v: "validate_signature [123, 125] ?sig (lit ''key'') = Inr True"
    by (rule validate_signature_computed) (simp_all add: lit_Cons lit_Nil utf8_char_def)
  have h: "[lit ''Notion-Signature'' \<mapsto> ?sig] (lit ''Notion-Signature'') = Some ?sig"
    by simp
  have e: "environ ?st (lit ''NOTION_WEBHOOK_SECRET'') = Some (lit ''key'')"
    by simp
  have m: "map_of ([] :: pydict) (lit ''type'') = None
           \<or> map_of ([] :: pydict) (lit ''facility_id'') = None"
    by simp
  have n: "lit ''Processed '' @ lit ''None'' @ lit '' event for facility None''
           = lit ''Processed None event for facility None''"
    by (simp add: lit_def)
  from process_missing_fields
         [where rt = ?rt and headers = "[lit ''Notion-Signature'' \<mapsto> ?sig]" and st = ?st,
          OF h e b v m]
  show ?thesis
    by (auto simp: dict_get_def n)
qed

text \<open>
  C10, as stated, fails. With room for 991 container levels in the logger, a payload
  without \<^verbatim>\<open>type\<close> whose \<^verbatim>\<open>facility_id\<close> is the number 1 inside 991 lists passes
  signature validation, and the call returns \<^verbatim>\<open>None\<close>: the logger's \<^verbatim>\<open>json.dumps\<close> has
  raised \<^verbatim>\<open>RecursionError\<close> inside \<^verbatim>\<open>try\<close>.
\<close>

theorem missing_type_deep_facility_id_counterexample:
  "map_of [(lit ''facility_id'', nested 991 (PyInt 1))] (lit ''type'') = None
   \<and> validate_signature
       (projr (payload_bytes
          \<lparr>str_repr = \<lambda>s. 39 # s @ [39], max_str_digits = 4300, depth_left = 990\<rparr>
          [(lit ''facility_id'', nested 991 (PyInt 1))]))
       (hexdigest (hmac_sha256 [107, 101, 121]
          (projr (payload_bytes
             \<lparr>str_repr = \<lambda>s. 39 # s @ [39], max_str_digits = 4300, depth_left = 990\<rparr>
             [(lit ''facility_id'', nested 991 (PyInt 1))]))))
       (lit ''key'') = Inr True
   \<and> fst (process_notion_webhook
            \<lparr>str_repr = \<lambda>s. 39 # s @ [39], max_str_digits = 4300, depth_left = 990\<rparr>
            [(lit ''facility_id'', nested 991 (PyInt 1))]
            [lit ''Notion-Signature'' \<mapsto>
               hexdigest (hmac_sha256 [107, 101, 121]
                 (projr (payload_bytes
                    \<lparr>str_repr = \<lambda>s. 39 # s @ [39], max_str_digits = 4300, depth_left = 990\<rparr>
                    [(lit ''facility_id'', nested 991 (PyInt 1))])))]
            \<lparr>environ = [lit ''NOTION_WEBHOOK_SECRET'' \<mapsto> lit ''key''], log_output = []\<rparr>)
     = Inr None"
proof -
  let ?rt = "\<lparr>str_repr = \<lambda>s. 39 # s @ [39], max_str_digits = 4300, depth_left = 990\<rparr>"
  let ?p = "[(lit ''facility_id'', nested 991 (PyInt 1))]"
  let ?bs = "projr (payload_bytes ?rt ?p)"
  let ?sig = "hexdigest (hmac_sha256 [107, 101, 121] ?bs)"
  let ?st = "\<lparr>environ = [lit ''NOTION_WEBHOOK_SECRET'' \<mapsto> lit ''key''], log_output = []\<rparr>"
  have "\<exists>bs. payload_bytes ?rt ?p = Inr bs"
    by (rule payload_bytes_nested) simp
  then have b: "payload_bytes ?rt ?p = Inr ?bs"
    by auto
  then have ne: "?bs \<noteq> []"
    using payload_bytes_Inr by blast
  have v: "validate_signature ?bs ?sig (lit ''key'') = Inr True"
    using ne by (intro validate_signature_computed) (simp_all add: lit_Cons lit_Nil utf8_char_def)
  have t: "map_of ?p (lit ''type'') = None"
    by (simp add: lit_eq_iff)
  have f: "dict_get ?p (lit ''facility_id'') = nested 991 (PyInt 1)"
    by (simp add: dict_get_def)
  have h: "[lit ''Notion-Signature'' \<mapsto> ?sig] (lit ''Notion-Signature'') = Some ?sig"
    by simp
  have e: "environ ?st (lit ''NOTION_WEBHOOK_SECRET'') = Some (lit ''key'')"
    by simp
  have et: "py_format ?rt (dict_get ?p (lit ''type'')) = Inr (lit ''None'')"
    using t by (simp only: dict_get_missing py_format_None)
  from py_format_of_payload [OF b] obtain ft
    where ft: "py_format ?rt (dict_get ?p (lit ''facility_id'')) = Inr ft"
    by blast
  have d: "format_log ?rt (lit ''Received '' @ lit ''None'' @ lit '' event'')
             [(lit ''facility_id'', nested 991 (PyInt 1))] = Inl RecursionError"
    by (rule format_log_too_deep) simp
  have "fst (process_notion_webhook ?rt ?p [lit ''Notion-Signature'' \<mapsto> ?sig] ?st) = Inr None"
    unfolding process_validated_fst
        [where headers = "[lit ''Notion-Signature'' \<mapsto> ?sig]", OF h e b v et ft]
    by (simp add: f d)
  with t v show ?thesis
    by blast
qed

section \<open>The dispatcher and the process state\<close>

lemma handle_event_log_frame:
  "handle_event rt payload st
   = (fst (handle_event rt payload (st\<lparr>log_output := []\<rparr>)),
      st\<lparr>log_output := log_output st
           @ log_output (snd (handle_event rt payload (st\<lparr>log_output := []\<rparr>)))\<rparr>)"
proof (cases "py_format rt (dict_get payload (lit ''type''))")
  case (Inl e)
  then show ?thesis by (simp add: handle_event_def Let_def)
next
  case et: (Inr et)
  let ?kw = "[(lit ''facility_id'', dict_get payload (lit ''facility_id''))]"
  show ?thesis
  proof (cases "format_log rt (lit ''Received '' @ et @ lit '' event'') ?kw")
    case (Inl e)
    with et show ?thesis by (simp add: handle_event_def logger_info_def Let_def)
  next
    case l1: (Inr l1)
    from logger_info_same_kwargs [OF l1] obtain l2 l3 l4
      where l2: "format_log rt (lit ''Processing facility update'') ?kw = Inr l2"
        and l3: "format_log rt (lit ''Processing facility verification'') ?kw = Inr l3"
        and l4: "format_log rt (lit ''Processing facility deletion'') ?kw = Inr l4"
      by metis
    show ?thesis
    proof (cases "py_format rt (dict_get payload (lit ''facility_id''))")
      case (Inl e)
      with et l1 l2 l3 l4 show ?thesis
        by (simp add: handle_event_def logger_info_def Let_def)
    next
      case (Inr ft)
      with et l1 l2 l3 l4 show ?thesis
        by (simp add: handle_event_def logger_info_def Let_def)
    qed
  qed
qed

lemma process_log_frame_at:
  "process_notion_webhook rt payload headers (st\<lparr>log_output := l\<rparr>)
   = (fst (process_notion_webhook rt payload headers (st\<lparr>log_output := []\<rparr>)),
      st\<lparr>log_output := l
           @ log_output (snd (process_notion_webhook rt payload headers
                                (st\<lparr>log_output := []\<rparr>)))\<rparr>)"
proof -
  define r where "r = fst (handle_event rt payload (st\<lparr>log_output := []\<rparr>))"
  define es where "es = log_output (snd (handle_event rt payload (st\<lparr>log_output := []\<rparr>)))"
  have hh: "handle_event rt payload (st\<lparr>log_output := k\<rparr>) = (r, st\<lparr>log_output := k @ es\<rparr>)"
    for k
    using handle_event_log_frame [of rt payload "st\<lparr>log_output := k\<rparr>"]
    by (simp add: r_def es_def)
  show ?thesis
    by (simp add: process_notion_webhook_def logger_info_def logger_error_def
        format_log_no_kwargs format_log_str hh split: option.splits sum.splits)
qed

lemma process_log_frame:
  "process_notion_webhook rt payload headers st
   = (fst (process_notion_webhook rt payload headers (st\<lparr>log_output := []\<rparr>)),
      st\<lparr>log_output := log_output st
           @ log_output (snd (process_notion_webhook rt payload headers
                                (st\<lparr>log_output := []\<rparr>)))\<rparr>)"
  using process_log_frame_at [where st = st and l = "log_output st"] by simp

text \<open>
  C8. With the environment held fixed, a call of \<^verbatim>\<open>process_notion_webhook\<close> leaves the
  environment as it was and only appends to the log; a second call with the same
  arguments in the state the first one left gives the same result and appends the same
  log records again. The outcome does not depend on what earlier calls have logged.
\<close>

theorem process_twice_same_result:
  assumes "process_notion_webhook rt payload headers st = (r, st')"
  shows "environ st' = environ st
         \<and> (\<exists>es. log_output st' = log_output st @ es
                \<and> process_notion_webhook rt payload headers st'
                    = (r, st'\<lparr>log_output := log_output st' @ es\<rparr>))"
proof -
  let ?r0 = "fst (process_notion_webhook rt payload headers (st\<lparr>log_output := []\<rparr>))"
  let ?es = "log_output (snd (process_notion_webhook rt payload headers
                                (st\<lparr>log_output := []\<rparr>)))"
  from assms have r: "r = ?r0" and st': "st' = st\<lparr>log_output := log_output st @ ?es\<rparr>"
    using process_log_frame [of rt payload headers st] by simp_all
  from st' have z: "st'\<lparr>log_output := []\<rparr> = st\<lparr>log_output := []\<rparr>"
    by simp
  have "process_notion_webhook rt payload headers st'
        = (r, st'\<lparr>log_output := log_output st' @ ?es\<rparr>)"
    using process_log_frame [of rt payload headers st'] by (simp only: z r)
  moreover have "log_output st' = log_output st @ ?es" and "environ st' = environ st"
    using st' by simp_all
  ultimately show ?thesis
    by blast
qed

theorem process_twice_same_result_witness:
  "process_notion_webhook
     \<lparr>str_repr = \<lambda>s. 39 # s @ [39], max_str_digits = 4300, depth_left = 900\<rparr> []
     [lit ''Notion-Signature'' \<mapsto> lit ''00'']
     \<lparr>environ = Map.empty, log_output = []\<rparr>
   = (Inr None,
      \<lparr>environ = Map.empty,
       log_output = [\<lparr>levelname = ERROR, msg = lit ''Webhook secret not configured'',
                      exc_info = None\<rparr>]\<rparr>)
   \<and> process_notion_webhook
       \<lparr>str_repr = \<lambda>s. 39 # s @ [39], max_str_digits = 4300, depth_left = 900\<rparr> []
       [lit ''Notion-Signature'' \<mapsto> lit ''00'']
       \<lparr>environ = Map.empty,
        log_output = [\<lparr>levelname = ERROR, msg = lit ''Webhook secret not configured'',
                       exc_info = None\<rparr>]\<rparr>
     = (Inr None,
        \<lparr>environ = Map.empty,
         log_output = [\<lparr>levelname = ERROR, msg = lit ''Webhook secret not configured'',
                        exc_info = None\<rparr>,
                       \<lparr>levelname = ERROR, msg = lit ''Webhook secret not configured'',
                        exc_info = None\<rparr>]\<rparr>)"
proof -
  let ?rt = "\<lparr>str_repr = \<lambda>s. 39 # s @ [39], max_str_digits = 4300, depth_left = 900\<rparr>"
  let ?h = "[lit ''Notion-Signature'' \<mapsto> lit ''00'']"
  let ?e = "\<lparr>levelname = ERROR, msg = lit ''Webhook secret not configured'', exc_info = None\<rparr>"
  have 1: "process_notion_webhook ?rt [] ?h \<lparr>environ = Map.empty, log_output = []\<rparr>
           = (Inr None, \<lparr>environ = Map.empty, log_output = [?e]\<rparr>)"
    by (simp add: process_notion_webhook_def logger_error_no_kwargs lit_Cons)
  from process_twice_same_result [OF 1]
  obtain es where "[?e] = [] @ es"
    and "process_notion_webhook ?rt [] ?h \<lparr>environ = Map.empty, log_output = [?e]\<rparr>
         = (Inr None, \<lparr>environ = Map.empty, log_output = [?e]\<rparr>\<lparr>log_output := [?e] @ es\<rparr>)"
    by auto
  then have "process_notion_webhook ?rt [] ?h \<lparr>environ = Map.empty, log_output = [?e]\<rparr>
         = (Inr None, \<lparr>environ = Map.empty, log_output = [?e, ?e]\<rparr>)"
    by simp
  with 1 show ?thesis
    by simp
qed

text \<open>
  C9. A \<^verbatim>\<open>Notion-Signature\<close> header that is present and empty is rejected exactly like
  an absent one: \<^verbatim>\<open>process_notion_webhook\<close> returns \<^verbatim>\<open>None\<close> and logs "Missing signature
  header", whatever the environment \<open>env\<close> holds, so neither the secret nor an HMAC
  plays a part (a secret that cannot be encoded raises nothing here).
\<close>

theorem process_empty_signature_header:
  assumes "headers (lit ''Notion-Signature'') = Some []"
  shows "process_notion_webhook rt payload headers (st\<lparr>environ := env\<rparr>)
         = (Inr None,
            st\<lparr>environ := env,
               log_output := log_output st
                 @ [\<lparr>levelname = ERROR, msg = lit ''Missing signature header'',
                     exc_info = None\<rparr>]\<rparr>)
         \<and> process_notion_webhook rt payload headers (st\<lparr>environ := env\<rparr>)
           = process_notion_webhook rt payload
               (headers(lit ''Notion-Signature'' := None)) (st\<lparr>environ := env\<rparr>)"
  using assms
  by (simp add: process_missing_header)

theorem process_empty_signature_header_witness:
  "process_notion_webhook
     \<lparr>str_repr = \<lambda>s. 39 # s @ [39], max_str_digits = 4300, depth_left = 900\<rparr> []
     [lit ''Notion-Signature'' \<mapsto> []]
     \<lparr>environ = [lit ''NOTION_WEBHOOK_SECRET'' \<mapsto> [0xD800]], log_output = []\<rparr>
   = (Inr None,
      \<lparr>environ = [lit ''NOTION_WEBHOOK_SECRET'' \<mapsto> [0xD800]],
       log_output = [\<lparr>levelname = ERROR, msg = lit ''Missing signature header'',
                      exc_info = None\<rparr>]\<rparr>)
   \<and> process_notion_webhook
       \<lparr>str_repr = \<lambda>s. 39 # s @ [39], max_str_digits = 4300, depth_left = 900\<rparr> []
       Map.empty
       \<lparr>environ = [lit ''NOTION_WEBHOOK_SECRET'' \<mapsto> [0xD800]], log_output = []\<rparr>
     = (Inr None,
        \<lparr>environ = [lit ''NOTION_WEBHOOK_SECRET'' \<mapsto> [0xD800]],
         log_output = [\<lparr>levelname = ERROR, msg = lit ''Missing signature header'',
                        exc_info = None\<rparr>]\<rparr>)"
  using process_empty_signature_header
          [where headers = "[lit ''Notion-Signature'' \<mapsto> []]"
             and rt = "\<lparr>str_repr = \<lambda>s. 39 # s @ [39], max_str_digits = 4300, depth_left = 900\<rparr>"
             and payload = "[]" and st = "\<lparr>environ = Map.empty, log_output = []\<rparr>"
             and env = "[lit ''NOTION_WEBHOOK_SECRET'' \<mapsto> [0xD800]]"]
  by auto

end
